(* ===== verification/Prelude.thy ===== *)
theory Prelude
  imports Complex_Main "HOL-Library.Word" "HOL-Library.Multiset"
begin

text \<open>
  Shared vocabulary of the development: the Python exceptions the script can raise, the
  result type that carries them, and the Python built-ins on lists that \<^verbatim>\<open>src/main.py\<close>
  relies on (slicing with \<^verbatim>\<open>xs[i:j]\<close> and \<^verbatim>\<open>sorted(..., key=k, reverse=True)\<close>), with the
  generic lemmas the component theories share.
\<close>

named_theorems py_simps "unfoldings of the modelled Python built-ins, for evaluation"

section \<open>Exceptions as values\<close>

text \<open>
  Every exception that can leave a call of the script is a value of \<open>py_error\<close>:
  \<open>AttributeError\<close> for a missing module attribute, \<open>KeyError\<close> for a missing
  dictionary key, \<open>CvError\<close> for \<^verbatim>\<open>cv2.error\<close> (an OpenCV assertion), and
  \<open>LibError\<close> for any exception raised inside an opaque library (Tesseract, the
  translation client, pygame), named by the library.
\<close>

datatype py_error =
    AttributeError string
  | KeyError string
  | CvError string
  | LibError string

type_synonym 'a result = "py_error + 'a"

definition res_bind :: "'a result \<Rightarrow> ('a \<Rightarrow> 'b result) \<Rightarrow> 'b result" where
  "res_bind m f = (case m of Inl e \<Rightarrow> Inl e | Inr a \<Rightarrow> f a)"

text \<open>
  The reference semantics of a Python \<^verbatim>\<open>for\<close> loop that applies a fallible call to each
  element and collects the results: the first exception aborts the loop.
\<close>

fun res_map :: "('a \<Rightarrow> 'b result) \<Rightarrow> 'a list \<Rightarrow> 'b list result" where
  "res_map f [] = Inr []"
| "res_map f (x # xs) = res_bind (f x) (\<lambda>y. res_bind (res_map f xs) (\<lambda>ys. Inr (y # ys)))"

section \<open>Python slicing \<^verbatim>\<open>xs[i:j]\<close>\<close>

text \<open>
  CPython's \<^verbatim>\<open>PySlice_AdjustIndices\<close> for step 1: a negative bound counts from the end,
  then both bounds are clipped to \<open>[0, len]\<close>; an empty range gives the empty list.
  NumPy's basic slicing of one axis follows the same rule.
\<close>

definition py_adjust :: "int \<Rightarrow> nat \<Rightarrow> nat" where
  "py_adjust i n = (if i < 0 then nat (max 0 (int n + i)) else min (nat i) n)"

definition py_slice :: "'a list \<Rightarrow> int \<Rightarrow> int \<Rightarrow> 'a list" where
  "py_slice xs i j =
     (let n = length xs; a = py_adjust i n; b = py_adjust j n in take (b - a) (drop a xs))"

declare py_adjust_def [py_simps] py_slice_def [py_simps]

section \<open>\<^verbatim>\<open>sorted(xs, key=k, reverse=True)\<close>\<close>

text \<open>
  CPython's \<^verbatim>\<open>list.sort\<close> keeps a reverse sort stable by reversing the list, sorting it
  ascending with a stable sort, and reversing the result (\<^verbatim>\<open>listsort\<close> in
  \<^verbatim>\<open>Objects/listobject.c\<close>). A stable ascending sort by a key into a linear order is
  unique, so HOL's \<open>sort_key\<close> (insertion sort, stable) stands for Timsort.
\<close>

definition py_sorted_desc :: "('a \<Rightarrow> 'k::linorder) \<Rightarrow> 'a list \<Rightarrow> 'a list" where
  "py_sorted_desc key xs = rev (sort_key key (rev xs))"

declare py_sorted_desc_def [py_simps]

section \<open>Lemmas on results\<close>

lemma res_bind_Inl [simp]: "res_bind (Inl e) f = Inl e"
  by (simp add: res_bind_def)

lemma res_bind_Inr [simp]: "res_bind (Inr a) f = f a"
  by (simp add: res_bind_def)

lemma res_bind_return [simp]: "res_bind m Inr = m"
  by (cases m) auto

lemma res_bind_eq_Inr:
  "res_bind m f = Inr b \<longleftrightarrow> (\<exists>a. m = Inr a \<and> f a = Inr b)"
  by (cases m) auto

lemma res_bind_eq_Inl:
  "res_bind m f = Inl e \<longleftrightarrow> m = Inl e \<or> (\<exists>a. m = Inr a \<and> f a = Inl e)"
  by (cases m) auto

lemma res_map_all_Inr:
  "(\<And>x. x \<in> set xs \<Longrightarrow> f x = Inr (g x)) \<Longrightarrow> res_map f xs = Inr (map g xs)"
  by (induction xs) auto

lemma res_map_first_error:
  "(\<And>x. x \<in> set ys \<Longrightarrow> f x = Inr (g x)) \<Longrightarrow> f z = Inl e \<Longrightarrow>
   res_map f (ys @ z # zs) = Inl e"
  by (induction ys) auto

lemma res_map_Inr_length:
  "res_map f xs = Inr ys \<Longrightarrow> length ys = length xs"
  by (induction xs arbitrary: ys) (auto simp: res_bind_eq_Inr)

section \<open>Lemmas on slicing and sorting\<close>

lemma py_slice_in_range:
  assumes "0 \<le> i" "i \<le> j" "j \<le> int (length xs)"
  shows "py_slice xs i j = take (nat (j - i)) (drop (nat i) xs)"
proof -
  have "py_adjust i (length xs) = nat i" "py_adjust j (length xs) = nat j"
    using assms by (auto simp: py_adjust_def)
  moreover have "nat j - nat i = nat (j - i)"
    using assms by simp
  ultimately show ?thesis by (simp add: py_slice_def)
qed

lemma length_py_slice_in_range:
  assumes "0 \<le> i" "i \<le> j" "j \<le> int (length xs)"
  shows "length (py_slice xs i j) = nat (j - i)"
  using assms by (simp add: py_slice_in_range)

lemma nth_py_slice_in_range:
  assumes "0 \<le> i" "i \<le> j" "j \<le> int (length xs)" "k < nat (j - i)"
  shows "py_slice xs i j ! k = xs ! (nat i + k)"
  using assms by (simp add: py_slice_in_range)

lemma py_slice_prefix: "py_slice xs 0 (int n) = take n xs"
  by (simp add: py_slice_def py_adjust_def Let_def min_def)

lemma py_sorted_desc_Nil [simp]: "py_sorted_desc key [] = []"
  by (simp add: py_sorted_desc_def)

lemma mset_py_sorted_desc [simp]: "mset (py_sorted_desc key xs) = mset xs"
  by (simp add: py_sorted_desc_def)

lemma set_py_sorted_desc [simp]: "set (py_sorted_desc key xs) = set xs"
  by (simp add: py_sorted_desc_def)

lemma length_py_sorted_desc [simp]: "length (py_sorted_desc key xs) = length xs"
  by (simp add: py_sorted_desc_def)

lemma py_sorted_desc_sorted: "sorted_wrt (\<ge>) (map key (py_sorted_desc key xs))"
  by (simp add: py_sorted_desc_def rev_map [symmetric] sorted_wrt_rev)

lemma py_sorted_desc_stable:
  "filter (\<lambda>y. key y = v) (py_sorted_desc key xs) = filter (\<lambda>y. key y = v) xs"
  by (simp add: py_sorted_desc_def rev_filter [symmetric] sort_key_stable)

text \<open>
  The reversal trick is a stable descending sort: it equals the stable ascending sort by the
  negated key. This is the reference definition the selector is proved against.
\<close>

lemma py_sorted_desc_eq_sort_neg:
  fixes key :: "'a \<Rightarrow> 'k::linordered_ab_group_add"
  shows "py_sorted_desc key xs = sort_key (\<lambda>x. - key x) xs"
proof -
  let ?ys = "py_sorted_desc key xs"
  have "sort_key (\<lambda>x. - key x) xs = ?ys"
  proof (rule properties_for_sort_key)
    show "mset ?ys = mset xs" by simp
  next
    fix k
    have "filter (\<lambda>x. key x = key k) ?ys = filter (\<lambda>x. key x = key k) xs"
      by (rule py_sorted_desc_stable)
    then show "filter (\<lambda>x. - key k = - key x) ?ys = filter (\<lambda>x. - key k = - key x) xs"
      by (simp add: eq_commute)
  next
    have "sorted_wrt (\<ge>) (map key ?ys)" by (rule py_sorted_desc_sorted)
    then show "sorted (map (\<lambda>x. - key x) ?ys)"
      by (simp add: sorted_wrt_map)
  qed
  then show ?thesis by simp
qed

section \<open>Generic facts\<close>

lemma unat_u8_le: "unat (x::8 word) \<le> 255"
proof -
  have "unat x < 2 ^ LENGTH(8)" by (rule unsigned_less)
  then show ?thesis by simp
qed

lemma sorted_wrt_take: "sorted_wrt P xs \<Longrightarrow> sorted_wrt P (take n xs)"
  by (metis append_take_drop_id sorted_wrt_append)

lemma sorted_wrt_take_drop:
  "sorted_wrt P xs \<Longrightarrow> x \<in> set (take n xs) \<Longrightarrow> y \<in> set (drop n xs) \<Longrightarrow> P x y"
  by (metis append_take_drop_id sorted_wrt_append)

lemma mset_take_subseteq: "mset (take n xs) \<subseteq># mset xs"
  by (metis append_take_drop_id mset_append mset_subset_eq_add_left)

end
