(* ===== verification/PyText.thy ===== *)
theory PyText
  imports Prelude
begin

text \<open>
  Python strings and the two string methods \<^verbatim>\<open>process_frame\<close> uses
  (\<^verbatim>\<open>src/main.py\<close>): \<^verbatim>\<open>text.strip()\<close> on each OCR result (line 45) and
  \<^verbatim>\<open>' '.join(processed_texts)\<close> on the list of results (line 47), the Text Aggregator of
  the spec. A Python \<open>str\<close> is a sequence of Unicode code points, so it is modelled as
  a list of naturals (Tesseract returns Chinese text, which a HOL \<open>char\<close> cannot hold).
\<close>

type_synonym pystr = "nat list"

text \<open>
  \<^verbatim>\<open>str.isspace\<close> of one code point: CPython's \<^verbatim>\<open>_PyUnicode_IsWhitespace\<close>, the
  characters of bidirectional class WS, B or S or of category Zs.
\<close>

definition py_isspace :: "nat \<Rightarrow> bool" where
  "py_isspace c \<longleftrightarrow>
     (9 \<le> c \<and> c \<le> 13) \<or> (28 \<le> c \<and> c \<le> 32) \<or> c = 133 \<or> c = 160 \<or> c = 5760 \<or>
     (8192 \<le> c \<and> c \<le> 8202) \<or> c = 8232 \<or> c = 8233 \<or> c = 8239 \<or> c = 8287 \<or> c = 12288"

text \<open>
  \<^verbatim>\<open>str.strip()\<close> without argument (CPython \<^verbatim>\<open>do_strip\<close>, \<^verbatim>\<open>BOTHSTRIP\<close>): the index
  \<open>i\<close> moves right over white space, the index \<open>j\<close> moves left over white space
  (never past \<open>i\<close>), and the result is \<open>s[i:j]\<close>.
\<close>

definition py_strip :: "pystr \<Rightarrow> pystr" where
  "py_strip s = rev (dropWhile py_isspace (rev (dropWhile py_isspace s)))"

text \<open>\<^verbatim>\<open>sep.join(items)\<close>: the items in order, the separator between neighbours.\<close>

fun py_join :: "pystr \<Rightarrow> pystr list \<Rightarrow> pystr" where
  "py_join sep [] = []"
| "py_join sep [x] = x"
| "py_join sep (x # y # zs) = x @ sep @ py_join sep (y # zs)"

abbreviation space :: nat where
  "space \<equiv> 32"

text \<open>
  Python's \<^verbatim>\<open>s.split(c)\<close> with an explicit one-character separator, used only as the
  inverse of \<^verbatim>\<open>' '.join\<close> in the round-trip property (the script never splits).
\<close>

fun split_on :: "nat \<Rightarrow> pystr \<Rightarrow> pystr list" where
  "split_on c [] = [[]]"
| "split_on c (x # xs) =
     (if x = c then [] # split_on c xs
      else (let r = split_on c xs in (x # hd r) # tl r))"

declare py_isspace_def [py_simps] py_strip_def [py_simps]

section \<open>Strip\<close>

lemma split_on_nonempty [simp]: "split_on c s \<noteq> []"
  by (induction s) (auto simp: Let_def)

lemma hd_dropWhile_not:
  "dropWhile P s \<noteq> [] \<Longrightarrow> \<not> P (hd (dropWhile P s))"
  by (induction s) auto

text \<open>
  C16: a non-empty result of \<^verbatim>\<open>text.strip()\<close> (line 45) neither starts nor ends with
  white space.
\<close>

theorem py_strip_edges:
  assumes "py_strip s \<noteq> []"
  shows "\<not> py_isspace (hd (py_strip s)) \<and> \<not> py_isspace (last (py_strip s))"
proof -
  let ?l = "dropWhile py_isspace s"
  let ?r = "dropWhile py_isspace (rev ?l)"
  have r_ne: "?r \<noteq> []"
    using assms unfolding py_strip_def by (metis rev.simps(1))
  then have last_ok: "\<not> py_isspace (last (rev ?r))"
    by (simp add: last_rev hd_dropWhile_not)
  have l_ne: "?l \<noteq> []"
    using r_ne by (metis dropWhile.simps(1) rev.simps(1))
  then have hd_l: "\<not> py_isspace (hd ?l)" by (rule hd_dropWhile_not)
  have "last ?r = last (takeWhile py_isspace (rev ?l) @ ?r)"
    by (rule last_appendR [OF r_ne, symmetric])
  also have "\<dots> = hd ?l"
    using l_ne by (simp add: last_rev)
  finally have "hd (rev ?r) = hd ?l"
    using r_ne by (simp add: hd_rev)
  with hd_l last_ok show ?thesis by (simp add: py_strip_def)
qed

text \<open>
  C17: \<^verbatim>\<open>text.strip()\<close> only removes white space: the text is the stripped text with a
  run of white space before and one after.
\<close>

theorem py_strip_infix:
  "\<exists>p q. s = p @ py_strip s @ q \<and> (\<forall>c\<in>set p. py_isspace c) \<and> (\<forall>c\<in>set q. py_isspace c)"
proof -
  let ?l = "dropWhile py_isspace s"
  let ?q = "takeWhile py_isspace (rev ?l)"
  have l: "s = takeWhile py_isspace s @ ?l" by simp
  have "rev ?l = ?q @ dropWhile py_isspace (rev ?l)" by simp
  then have "?l = py_strip s @ rev ?q"
    unfolding py_strip_def by (metis rev_append rev_rev_ident)
  with l have "s = takeWhile py_isspace s @ py_strip s @ rev ?q" by simp
  moreover have "\<forall>c\<in>set (takeWhile py_isspace s). py_isspace c"
    by (auto dest: set_takeWhileD)
  moreover have "\<forall>c\<in>set (rev ?q). py_isspace c"
    by (auto dest: set_takeWhileD)
  ultimately show ?thesis by blast
qed

lemma py_strip_all_space: "(\<forall>c\<in>set s. py_isspace c) \<Longrightarrow> py_strip s = []"
proof -
  assume "\<forall>c\<in>set s. py_isspace c"
  then have nil: "dropWhile py_isspace s = []" by (simp add: dropWhile_eq_Nil_conv)
  show ?thesis unfolding py_strip_def nil by simp
qed

section \<open>Join\<close>

text \<open>
  C19: \<^verbatim>\<open>' '.join(processed_texts)\<close> (line 47) has the lengths of the texts plus one
  separator between each two neighbours.
\<close>

theorem length_py_join:
  "xs \<noteq> [] \<Longrightarrow>
   length (py_join sep xs) = sum_list (map length xs) + (length xs - 1) * length sep"
  by (induction sep xs rule: py_join.induct) auto

lemma split_on_append_sep:
  "c \<notin> set w \<Longrightarrow> split_on c (w @ c # s) = w # split_on c s"
  by (induction w) (auto simp: Let_def)

lemma split_on_no_sep:
  "c \<notin> set w \<Longrightarrow> split_on c w = [w]"
  by (induction w) (auto simp: Let_def)

text \<open>
  C18: the aggregated text keeps the region texts apart only as long as they contain no
  space: splitting it at spaces gives the texts back exactly then.
\<close>

theorem join_split_roundtrip:
  "xs \<noteq> [] \<Longrightarrow> (\<forall>w\<in>set xs. c \<notin> set w) \<Longrightarrow> split_on c (py_join [c] xs) = xs"
  by (induction "[c]" xs rule: py_join.induct) (auto simp: split_on_no_sep split_on_append_sep)

section \<open>Witnesses\<close>

theorem py_strip_edges_witness:
  "py_strip [32, 20320, 22909, 10] = [20320, 22909] \<and>
   \<not> py_isspace (hd (py_strip [32, 20320, 22909, 10])) \<and>
   \<not> py_isspace (last (py_strip [32, 20320, 22909, 10]))"
proof -
  have e: "py_strip [32, 20320, 22909, 10] = [20320, 22909]" by (simp add: py_simps)
  then show ?thesis using py_strip_edges [of "[32, 20320, 22909, 10]"] by simp
qed

theorem py_strip_infix_witness:
  "\<exists>p q. [32, 65, 32, 66, 10] = p @ py_strip [32, 65, 32, 66, 10] @ q \<and>
     (\<forall>c\<in>set p. py_isspace c) \<and> (\<forall>c\<in>set q. py_isspace c)"
  by (rule py_strip_infix)

theorem join_split_roundtrip_witness:
  "split_on space (py_join [space] [[20320], [22909, 65]]) = [[20320], [22909, 65]]"
  by (rule join_split_roundtrip) simp_all

theorem length_py_join_witness:
  "length (py_join [space] [[20320], [22909, 65]]) = 4"
  using length_py_join [of "[[20320], [22909, 65]]" "[space]"] by simp

end
