(* ===== verification/Image.thy ===== *)
theory Image
  imports Prelude
begin

text \<open>
  The NumPy arrays of \<^verbatim>\<open>src/main.py\<close> and the OpenCV calls on them that the script makes
  with fixed arguments: \<^verbatim>\<open>cv2.cvtColor\<close> with \<^verbatim>\<open>COLOR_RGB2BGR\<close> (line 64) and
  \<^verbatim>\<open>COLOR_BGR2GRAY\<close> (line 18), \<^verbatim>\<open>cv2.adaptiveThreshold\<close> with
  \<^verbatim>\<open>ADAPTIVE_THRESH_MEAN_C\<close> (line 21), and the crop \<^verbatim>\<open>gray[y:y+h, x:x+w]\<close> (line 38).
  An image is the list of its rows; a pixel of an 8-bit array is an \<open>8 word\<close>.
\<close>

type_synonym u8 = "8 word"
type_synonym gray_image = "u8 list list"
type_synonym pixel3 = "u8 \<times> u8 \<times> u8"
type_synonym color_image = "pixel3 list list"

definition img_width :: "'a list list \<Rightarrow> nat" where
  "img_width img = (case img of [] \<Rightarrow> 0 | r # _ \<Rightarrow> length r)"

definition rectangular :: "'a list list \<Rightarrow> nat \<Rightarrow> nat \<Rightarrow> bool" where
  "rectangular img h w \<longleftrightarrow> length img = h \<and> (\<forall>row\<in>set img. length row = w)"

section \<open>Colour conversion\<close>

text \<open>
  \<^verbatim>\<open>cv2.cvtColor(src, code)\<close> first asserts \<^verbatim>\<open>!_src.empty()\<close> (an array with no row
  or no column raises \<^verbatim>\<open>cv2.error\<close>), then converts every pixel with the code's
  pixel function.
\<close>

definition cvt_color :: "(pixel3 \<Rightarrow> 'a) \<Rightarrow> color_image \<Rightarrow> 'a list list result" where
  "cvt_color conv img =
     (if img = [] \<or> img_width img = 0 then Inl (CvError ''!_src.empty()'')
      else Inr (map (map conv) img))"

text \<open>\<^verbatim>\<open>COLOR_RGB2BGR\<close> exchanges channels 0 and 2 of every pixel.\<close>

definition swap_rb :: "pixel3 \<Rightarrow> pixel3" where
  "swap_rb p = (case p of (c0, c1, c2) \<Rightarrow> (c2, c1, c0))"

definition cvt_rgb2bgr :: "color_image \<Rightarrow> color_image result" where
  "cvt_rgb2bgr img = cvt_color swap_rb img"

text \<open>
  \<^verbatim>\<open>COLOR_BGR2GRAY\<close> on 8-bit data uses OpenCV's fixed-point weights of
  ITU-R BT.601 (\<^verbatim>\<open>B2Y = 1868\<close>, \<^verbatim>\<open>G2Y = 9617\<close>, \<^verbatim>\<open>R2Y = 4899\<close>,
  \<^verbatim>\<open>yuv_shift = 14\<close>) and rounds with \<^verbatim>\<open>CV_DESCALE\<close>: add half of \<open>2^14\<close>, shift right.
  The weights sum to \<open>2^14\<close>, so the result fits in 8 bits.
\<close>

definition gray_weighted :: "pixel3 \<Rightarrow> nat" where
  "gray_weighted p = (case p of (b, g, r) \<Rightarrow>
     (unat b * 1868 + unat g * 9617 + unat r * 4899 + 8192) div 16384)"

definition gray_of_bgr :: "pixel3 \<Rightarrow> u8" where
  "gray_of_bgr p = word_of_nat (gray_weighted p)"

definition cvt_bgr2gray :: "color_image \<Rightarrow> gray_image result" where
  "cvt_bgr2gray img = cvt_color gray_of_bgr img"

section \<open>Adaptive threshold\<close>

text \<open>
  \<^verbatim>\<open>adaptiveThreshold(src, maxValue, ADAPTIVE_THRESH_MEAN_C, type, blockSize, C)\<close>
  (OpenCV \<^verbatim>\<open>imgproc/src/thresh.cpp\<close>): it asserts that the block size is odd and
  greater than 1; a negative \<open>maxValue\<close> gives an all-zero image; otherwise the local
  mean is a normalised box filter over the \<open>blockSize \<times> blockSize\<close> neighbourhood with
  replicated borders, rounded to 8 bits, and each pixel is compared with it through the
  table \<^verbatim>\<open>tab[src - mean + 255]\<close>. For \<^verbatim>\<open>THRESH_BINARY\<close> a pixel becomes
  \<open>maxValue\<close> when \<open>src - mean > -C\<close>, for \<^verbatim>\<open>THRESH_BINARY_INV\<close> when
  \<open>src - mean \<le> -C\<close>, and 0 otherwise. The script passes \<open>C = 2\<close>, an integer, so
  OpenCV's rounding of \<open>C\<close> is the identity here.
\<close>

datatype thresh_type = THRESH_BINARY | THRESH_BINARY_INV

definition clamp_index :: "int \<Rightarrow> nat \<Rightarrow> nat" where
  "clamp_index i n = nat (max 0 (min i (int n - 1)))"

definition pixel_replicate :: "gray_image \<Rightarrow> int \<Rightarrow> int \<Rightarrow> nat" where
  "pixel_replicate img a c =
     unat (img ! clamp_index a (length img) ! clamp_index c (img_width img))"

definition box_sum :: "nat \<Rightarrow> gray_image \<Rightarrow> nat \<Rightarrow> nat \<Rightarrow> nat" where
  "box_sum r img i j =
     sum_list (concat (map (\<lambda>di. map (\<lambda>dj. pixel_replicate img (int i + di) (int j + dj))
                                     [- int r..int r])
                        [- int r..int r]))"

text \<open>
  The box filter's mean, rounded to nearest (\<^verbatim>\<open>saturate_cast<uchar>\<close>); for an odd
  block size \<open>b\<close> the quotient by \<open>b\<^sup>2\<close> is never half-way, so rounding half up is
  OpenCV's rounding.
\<close>

definition box_mean :: "nat \<Rightarrow> gray_image \<Rightarrow> nat \<Rightarrow> nat \<Rightarrow> nat" where
  "box_mean b img i j = (2 * box_sum (b div 2) img i j + b * b) div (2 * b * b)"

text \<open>
  How OpenCV computes that mean for 8-bit data (\<^verbatim>\<open>imgproc/src/box_filter.simd.hpp\<close>):
  with a window of at most 256 pixels the sums are kept in 16 bits and
  \<^verbatim>\<open>ColumnSum<ushort, uchar>\<close> divides by the window size \<open>d\<close> in fixed point with
  \<^verbatim>\<open>SHIFT = 23\<close>: \<^verbatim>\<open>divScale = floor(2^23 / d)\<close> and \<^verbatim>\<open>divDelta = d / 2\<close>, the
  first increased by one when the fraction of \<open>2^23 / d\<close> is at least a half and the second
  otherwise; the mean is \<^verbatim>\<open>(sum + divDelta) * divScale >> 23\<close>, in C \<^verbatim>\<open>int\<close>.
\<close>

definition div_params :: "nat \<Rightarrow> nat \<times> nat" where
  "div_params d =
     (if 2 * (2 ^ 23 mod d) < d then (2 ^ 23 div d, d div 2 + 1) else (2 ^ 23 div d + 1, d div 2))"

definition box_mean_fixed :: "nat \<Rightarrow> gray_image \<Rightarrow> nat \<Rightarrow> nat \<Rightarrow> nat" where
  "box_mean_fixed b img i j =
     (case div_params (b * b) of (sc, dl) \<Rightarrow> ((box_sum (b div 2) img i j + dl) * sc) div 2 ^ 23)"

definition sat_u8 :: "int \<Rightarrow> u8" where
  "sat_u8 v = word_of_int (max 0 (min 255 v))"

fun thresh_test :: "thresh_type \<Rightarrow> int \<Rightarrow> int \<Rightarrow> bool" where
  "thresh_test THRESH_BINARY d c = (d > - c)"
| "thresh_test THRESH_BINARY_INV d c = (d \<le> - c)"

definition thresh_pixel ::
  "gray_image \<Rightarrow> int \<Rightarrow> thresh_type \<Rightarrow> nat \<Rightarrow> int \<Rightarrow> nat \<Rightarrow> nat \<Rightarrow> u8" where
  "thresh_pixel src maxv ty b c i j =
     (if thresh_test ty (uint (src ! i ! j) - int (box_mean b src i j)) c then sat_u8 maxv else 0)"

definition adaptive_threshold_mean ::
  "gray_image \<Rightarrow> int \<Rightarrow> thresh_type \<Rightarrow> nat \<Rightarrow> int \<Rightarrow> gray_image result" where
  "adaptive_threshold_mean src maxv ty b c =
     (if \<not> (b mod 2 = 1 \<and> 1 < b)
      then Inl (CvError ''blockSize % 2 == 1 && blockSize > 1'')
      else if maxv < 0 then Inr (map (map (\<lambda>_. 0)) src)
      else Inr (map (\<lambda>i. map (thresh_pixel src maxv ty b c i) [0..<img_width src])
                    [0..<length src]))"

section \<open>Cropping\<close>

text \<open>\<^verbatim>\<open>gray[y:y+h, x:x+w]\<close>: a slice of the rows, then the same slice of every row.\<close>

definition crop :: "'a list list \<Rightarrow> int \<Rightarrow> int \<Rightarrow> int \<Rightarrow> int \<Rightarrow> 'a list list" where
  "crop img x y w h = map (\<lambda>row. py_slice row x (x + w)) (py_slice img y (y + h))"

declare img_width_def [py_simps] rectangular_def [py_simps] cvt_color_def [py_simps]
  swap_rb_def [py_simps] cvt_rgb2bgr_def [py_simps]
  gray_weighted_def [py_simps] gray_of_bgr_def [py_simps] cvt_bgr2gray_def [py_simps]
  clamp_index_def [py_simps] pixel_replicate_def [py_simps] box_sum_def [py_simps] box_mean_def [py_simps]
  div_params_def [py_simps] box_mean_fixed_def [py_simps] sat_u8_def [py_simps] thresh_pixel_def [py_simps] adaptive_threshold_mean_def [py_simps] crop_def [py_simps]

section \<open>Properties\<close>

lemma sum_list_const_nat:
  "(\<forall>x\<in>set xs. x = c) \<Longrightarrow> sum_list xs = length xs * (c::nat)"
  by (induction xs) auto

lemma clamp_index_less: "0 < n \<Longrightarrow> clamp_index i n < n"
  by (simp add: clamp_index_def)

lemma gray_weighted_le: "gray_weighted p \<le> 255"
proof (cases p)
  case (fields b g r)
  have "unat b \<le> 255" "unat g \<le> 255" "unat r \<le> 255"
    by (rule unat_u8_le)+
  then have "unat b * 1868 + unat g * 9617 + unat r * 4899 + 8192 < 256 * 16384"
    by linarith
  then show ?thesis
    by (simp add: fields gray_weighted_def less_Suc_eq_le [symmetric] div_less_iff_less_mult)
qed

text \<open>
  C14: the fixed-point grey conversion of line 18 never wraps around: the 8-bit result is
  exactly the rounded weighted sum, which is at most 255.
\<close>

theorem gray_no_wrap: "unat (gray_of_bgr p) = gray_weighted p \<and> gray_weighted p \<le> 255"
proof -
  have lt: "gray_weighted p < 2 ^ LENGTH(8)"
    using gray_weighted_le [of p] by simp
  have "unat (gray_of_bgr p) = gray_weighted p"
    unfolding gray_of_bgr_def unat_of_nat by (rule mod_less [OF lt])
  then show ?thesis using gray_weighted_le [of p] by simp
qed

lemma gray_of_grey: "gray_of_bgr (v, v, v) = v"
proof -
  have "gray_weighted (v, v, v) = unat v"
    by (simp add: gray_weighted_def)
  then show ?thesis
    by (simp add: gray_of_bgr_def)
qed

lemma box_sum_uniform:
  assumes "\<And>a c. pixel_replicate img a c = u"
  shows "box_sum r img i j = (2 * r + 1) * (2 * r + 1) * u"
proof -
  let ?L = "concat (map (\<lambda>di. map (\<lambda>dj. pixel_replicate img (int i + di) (int j + dj))
                               [- int r..int r]) [- int r..int r])"
  have "\<forall>x\<in>set ?L. x = u" by (auto simp: assms)
  then have "sum_list ?L = length ?L * u" by (rule sum_list_const_nat)
  moreover have "length ?L = (2 * r + 1) * (2 * r + 1)"
    by (simp add: length_concat comp_def sum_list_triv nat_add_distrib nat_mult_distrib)
  ultimately show ?thesis by (simp add: box_sum_def)
qed

lemma pixel_replicate_uniform:
  assumes ne: "0 < length img" "0 < img_width img"
    and u: "\<forall>k<length img. \<forall>l<img_width img. unat (img ! k ! l) = u"
  shows "pixel_replicate img a c = u"
  using u clamp_index_less [OF ne(1)] clamp_index_less [OF ne(2)]
  by (simp add: pixel_replicate_def)

lemma box_mean_uniform:
  assumes odd: "b mod 2 = 1"
    and ne: "0 < length img" "0 < img_width img"
    and u: "\<forall>k<length img. \<forall>l<img_width img. unat (img ! k ! l) = u"
  shows "box_mean b img i j = u"
proof -
  have b: "2 * (b div 2) + 1 = b" using odd by presburger
  have "box_sum (b div 2) img i j = (2 * (b div 2) + 1) * (2 * (b div 2) + 1) * u"
    by (rule box_sum_uniform [OF pixel_replicate_uniform [OF ne u]])
  then have "box_sum (b div 2) img i j = b * b * u"
    by (simp only: b)
  moreover have "(2 * (b * b * u) + b * b) div (2 * b * b) = u"
  proof -
    have pos: "0 < b * b" using odd by (cases b) auto
    have e1: "2 * (b * b * u) + b * b = b * b + u * (2 * b * b)" by (simp add: algebra_simps)
    have e2: "(b * b + u * (2 * b * b)) div (2 * b * b) = u + (b * b) div (2 * b * b)"
      using pos by (intro div_mult_self1) simp
    have e3: "(b * b) div (2 * b * b) = 0" using pos by (intro div_less) simp
    show ?thesis unfolding e1 e2 e3 by simp
  qed
  ultimately show ?thesis by (simp add: box_mean_def)
qed

lemma sum_list_le_const_nat:
  "(\<forall>x\<in>set xs. x \<le> c) \<Longrightarrow> sum_list xs \<le> length xs * (c::nat)"
  by (induction xs) auto

lemma box_sum_le:
  assumes "\<forall>di\<in>{- int r..int r}. \<forall>dj\<in>{- int r..int r}. pixel_replicate img (int i + di) (int j + dj) \<le> m"
  shows "box_sum r img i j \<le> (2 * r + 1) * (2 * r + 1) * m"
proof -
  let ?L = "concat (map (\<lambda>di. map (\<lambda>dj. pixel_replicate img (int i + di) (int j + dj))
                               [- int r..int r]) [- int r..int r])"
  have "\<forall>x\<in>set ?L. x \<le> m" using assms by auto
  then have "sum_list ?L \<le> length ?L * m" by (rule sum_list_le_const_nat)
  moreover have "length ?L = (2 * r + 1) * (2 * r + 1)"
    by (simp add: length_concat comp_def sum_list_triv nat_add_distrib nat_mult_distrib)
  ultimately show ?thesis by (simp add: box_sum_def)
qed

lemma box_mean_le:
  assumes odd: "b mod 2 = 1"
    and le: "\<forall>di\<in>{- int (b div 2)..int (b div 2)}. \<forall>dj\<in>{- int (b div 2)..int (b div 2)}.
               pixel_replicate img (int i + di) (int j + dj) \<le> m"
  shows "box_mean b img i j \<le> m"
proof -
  have b: "2 * (b div 2) + 1 = b" using odd by presburger
  have "box_sum (b div 2) img i j \<le> b * b * m"
    using box_sum_le [OF le] by (simp only: b)
  then have "2 * box_sum (b div 2) img i j + b * b \<le> m * (2 * b * b) + b * b"
    by (simp add: algebra_simps)
  then have "box_mean b img i j \<le> (m * (2 * b * b) + b * b) div (2 * b * b)"
    unfolding box_mean_def by (rule div_le_mono)
  also have "\<dots> = m"
  proof -
    have pos: "0 < b * b" using odd by (cases b) auto
    have "(m * (2 * b * b) + b * b) div (2 * b * b) = m + (b * b) div (2 * b * b)"
      using pos by (simp add: add.commute)
    moreover have "(b * b) div (2 * b * b) = 0" using pos by (intro div_less) simp
    ultimately show ?thesis by simp
  qed
  finally show ?thesis .
qed

lemma fixed_div_121:
  fixes s :: nat
  assumes "s \<le> 30855"
  shows "((s + 61) * 69327) div 8388608 = (2 * s + 121) div 242"
proof -
  define q where "q = s div 121"
  define r where "r = s mod 121"
  have s: "s = 121 * q + r" by (simp add: q_def r_def)
  have r: "r < 121" by (simp add: r_def)
  have q: "q \<le> 255" using assms by (simp add: q_def)
  have rhs: "(2 * s + 121) div 242 = q + (2 * r + 121) div 242"
    unfolding s by simp
  have lhs_eq: "(s + 61) * 69327 = q * 8388608 + ((r + 61) * 69327 - 41 * q)"
    using q unfolding s by simp
  have lhs: "((s + 61) * 69327) div 8388608 = q + ((r + 61) * 69327 - 41 * q) div 8388608"
    unfolding lhs_eq by simp
  show ?thesis
  proof (cases "r \<le> 60")
    case True
    then have "((r + 61) * 69327 - 41 * q) div 8388608 = 0" by simp
    moreover have "(2 * r + 121) div 242 = 0" using True by simp
    ultimately show ?thesis using lhs rhs by simp
  next
    case False
    then have "((r + 61) * 69327 - 41 * q) div 8388608 = 1"
      using r q by (intro div_nat_eqI) simp_all
    moreover have "(2 * r + 121) div 242 = 1" using False r by (intro div_nat_eqI) simp_all
    ultimately show ?thesis using lhs rhs by simp
  qed
qed

lemma box_sum_u8_le: "box_sum r img i j \<le> (2 * r + 1) * (2 * r + 1) * 255"
  by (rule box_sum_le) (simp add: pixel_replicate_def unat_u8_le)

lemma rectangular_map_map [simp]:
  "rectangular (map (map f) img) h w = rectangular img h w"
  by (simp add: rectangular_def)

lemma rectangular_img_width:
  "rectangular img h w \<Longrightarrow> 0 < h \<Longrightarrow> img_width img = w"
  by (cases img) (auto simp: rectangular_def img_width_def)

lemma img_width_replicate [simp]: "0 < h \<Longrightarrow> img_width (replicate h r) = length r"
  by (cases h) (simp_all add: img_width_def)

lemma cvt_color_rect:
  assumes "rectangular img h w" "0 < h" "0 < w"
  shows "cvt_color conv img = Inr (map (map conv) img)"
  using assms rectangular_img_width [OF assms(1,2)] by (auto simp: cvt_color_def rectangular_def)

lemma cvt_color_Inr:
  "cvt_color conv img = Inr out \<Longrightarrow> out = map (map conv) img \<and> img \<noteq> [] \<and> 0 < img_width img"
  by (auto simp: cvt_color_def split: if_splits)

lemma rectangular_nth:
  assumes "rectangular img h w" "k < h" "l < w" "\<forall>row\<in>set img. \<forall>p\<in>set row. P p"
  shows "P (img ! k ! l)"
proof -
  have row: "img ! k \<in> set img" using assms(1,2) by (simp add: rectangular_def)
  then have "l < length (img ! k)" using assms(1,3) by (simp add: rectangular_def)
  with row assms(4) show ?thesis by simp
qed

lemma adaptive_threshold_binary:
  assumes "rectangular src h w" "b mod 2 = 1" "1 < b"
  shows "\<exists>t. adaptive_threshold_mean src 255 ty b c = Inr t \<and> rectangular t h w \<and>
           (\<forall>row\<in>set t. \<forall>p\<in>set row. p = 0 \<or> p = 255)"
proof -
  have w: "0 < h \<Longrightarrow> img_width src = w"
    using assms(1) by (rule rectangular_img_width)
  have "sat_u8 255 = 255" by (simp add: sat_u8_def)
  then have "\<And>i j. thresh_pixel src 255 ty b c i j = 0 \<or> thresh_pixel src 255 ty b c i j = 255"
    by (simp add: thresh_pixel_def)
  then show ?thesis
    using assms w by (auto simp: adaptive_threshold_mean_def rectangular_def)
qed

lemma adaptive_threshold_uniform_inv:
  assumes rect: "rectangular src h w" and odd: "b mod 2 = 1" "1 < b" and c: "0 < c"
    and uni: "\<forall>row\<in>set src. \<forall>p\<in>set row. p = v"
  shows "adaptive_threshold_mean src 255 THRESH_BINARY_INV b c = Inr (replicate h (replicate w 0))"
proof -
  have h: "length src = h" using rect by (simp add: rectangular_def)
  have row: "map (thresh_pixel src 255 THRESH_BINARY_INV b c i) [0..<img_width src] = replicate w 0"
    if i: "i < h" for i
  proof -
    have ne: "0 < length src" "0 < h" using i h by simp_all
    have wd: "img_width src = w" using rectangular_img_width [OF rect ne(2)] .
    have zero: "thresh_pixel src 255 THRESH_BINARY_INV b c i j = 0" if j: "j < w" for j
    proof -
      have ne2: "0 < img_width src" using j wd by simp
      have "\<forall>k<length src. \<forall>l<img_width src. unat (src ! k ! l) = unat v"
        using rectangular_nth [OF rect _ _ uni] h wd by simp
      then have "box_mean b src i j = unat v"
        by (rule box_mean_uniform [OF odd(1) ne(1) ne2])
      moreover have "src ! i ! j = v"
        using rectangular_nth [OF rect i j uni] by simp
      ultimately show ?thesis using c by (simp add: thresh_pixel_def)
    qed
    have "map (thresh_pixel src 255 THRESH_BINARY_INV b c i) [0..<w] = map (\<lambda>_. 0) [0..<w]"
      using zero by (intro map_cong) auto
    then show ?thesis by (simp add: map_replicate_const wd)
  qed
  have "map (\<lambda>i. map (thresh_pixel src 255 THRESH_BINARY_INV b c i) [0..<img_width src]) [0..<h]
      = map (\<lambda>_. replicate w 0) [0..<h]"
    using row by (intro map_cong) auto
  then show ?thesis
    using odd h by (simp add: adaptive_threshold_mean_def map_replicate_const)
qed

lemma crop_in_range:
  assumes rect: "rectangular img H W"
    and bounds: "0 \<le> x" "0 \<le> y" "0 \<le> w" "0 \<le> h" "x + w \<le> int W" "y + h \<le> int H"
  shows "rectangular (crop img x y w h) (nat h) (nat w) \<and>
         (\<forall>i<nat h. \<forall>j<nat w. crop img x y w h ! i ! j = img ! (nat y + i) ! (nat x + j))"
proof -
  have rows: "py_slice img y (y + h) = take (nat h) (drop (nat y) img)"
    using rect bounds by (simp add: py_slice_in_range rectangular_def)
  have lenrow: "\<And>row. row \<in> set img \<Longrightarrow> length row = W"
    using rect by (simp add: rectangular_def)
  have cols: "\<And>row. row \<in> set img \<Longrightarrow> py_slice row x (x + w) = take (nat w) (drop (nat x) row)"
    using bounds lenrow by (simp add: py_slice_in_range)
  have sub: "set (take (nat h) (drop (nat y) img)) \<subseteq> set img"
    by (meson in_set_dropD in_set_takeD subsetI)
  have len: "length (take (nat h) (drop (nat y) img)) = nat h"
    using rect bounds by (simp add: rectangular_def)
  have "rectangular (crop img x y w h) (nat h) (nat w)"
    using sub len cols lenrow bounds by (auto simp: crop_def rows rectangular_def)
  moreover have "\<forall>i<nat h. \<forall>j<nat w. crop img x y w h ! i ! j = img ! (nat y + i) ! (nat x + j)"
  proof (intro allI impI)
    fix i j assume i: "i < nat h" and j: "j < nat w"
    have iy: "nat y + i < length img" using rect bounds i by (simp add: rectangular_def)
    then have mem: "img ! (nat y + i) \<in> set img" by simp
    have "crop img x y w h ! i = py_slice (img ! (nat y + i)) x (x + w)"
      using i len iy by (simp add: crop_def rows)
    also have "\<dots> = take (nat w) (drop (nat x) (img ! (nat y + i)))"
      using cols mem by blast
    finally show "crop img x y w h ! i ! j = img ! (nat y + i) ! (nat x + j)"
      using j lenrow [OF mem] bounds by simp
  qed
  ultimately show ?thesis ..
qed

text \<open>
  C32: for the \<open>11 \<times> 11\<close> window of line 21, OpenCV's fixed-point division gives
  exactly the rounded mean \<open>box_mean\<close> the model thresholds against, for every 8-bit
  image and pixel, and its C \<^verbatim>\<open>int\<close> product never overflows.
\<close>

theorem box_mean_fixed_exact:
  "box_mean_fixed 11 img i j = box_mean 11 img i j \<and>
   (box_sum 5 img i j + 61) * 69327 < 2 ^ 31"
proof -
  have le: "box_sum 5 img i j \<le> 30855" using box_sum_u8_le [of 5 img i j] by simp
  have "box_mean_fixed 11 img i j = ((box_sum 5 img i j + 61) * 69327) div 8388608"
    by (simp add: box_mean_fixed_def div_params_def)
  also have "\<dots> = (2 * box_sum 5 img i j + 121) div 242"
    using le by (rule fixed_div_121)
  also have "\<dots> = box_mean 11 img i j"
    by (simp add: box_mean_def)
  finally show ?thesis using le by simp
qed

end
