(* ===== verification/Contours.thy ===== *)
theory Contours
  imports Prelude Image
begin

text \<open>
  The Region Detector and Region Ranker/Selector of \<^verbatim>\<open>process_frame\<close>
  (\<^verbatim>\<open>src/main.py\<close>, lines 26 to 35): a contour returned by \<^verbatim>\<open>cv2.findContours\<close> is a
  list of integer pixel points; the script keeps the contours whose
  \<^verbatim>\<open>cv2.contourArea\<close> exceeds 1000 (line 27), sorts them by that area with
  \<^verbatim>\<open>sorted(..., reverse=True)\<close> (line 30), takes the first five (line 34) and crops the
  \<^verbatim>\<open>cv2.boundingRect\<close> of each (line 35).
\<close>

type_synonym point = "int \<times> int"
type_synonym contour = "point list"

section \<open>\<^verbatim>\<open>cv2.contourArea\<close> and \<^verbatim>\<open>cv2.boundingRect\<close>\<close>

text \<open>
  \<^verbatim>\<open>contourArea\<close> (OpenCV \<^verbatim>\<open>imgproc/src/shapedescr.cpp\<close>, \<open>oriented = false\<close>): the
  shoelace sum over the closed polygon, starting from the pair (last point, first point),
  halved and made non-negative; an empty contour has area 0. Integer coordinates make the
  double arithmetic exact, so the area is the rational below.
\<close>

fun shoelace :: "point \<Rightarrow> point list \<Rightarrow> int" where
  "shoelace prev [] = 0"
| "shoelace (px, py) ((x, y) # ps) = (px * y - py * x) + shoelace (x, y) ps"

definition contourArea :: "contour \<Rightarrow> rat" where
  "contourArea c = (if c = [] then 0 else of_int \<bar>shoelace (last c) c\<bar> / 2)"

text \<open>
  \<^verbatim>\<open>boundingRect\<close> of an integer point set (\<^verbatim>\<open>pointSetBoundingRect\<close>): the least and
  greatest coordinates, width and height counted in pixels (\<open>max - min + 1\<close>); an empty
  set gives the empty rectangle.
\<close>

record rect =
  rect_x :: int
  rect_y :: int
  rect_w :: int
  rect_h :: int

definition boundingRect :: "contour \<Rightarrow> rect" where
  "boundingRect c =
     (case c of
        [] \<Rightarrow> \<lparr>rect_x = 0, rect_y = 0, rect_w = 0, rect_h = 0\<rparr>
      | (x0, y0) # ps \<Rightarrow>
          (let xmin = fold min (map fst ps) x0; xmax = fold max (map fst ps) x0;
               ymin = fold min (map snd ps) y0; ymax = fold max (map snd ps) y0
           in \<lparr>rect_x = xmin, rect_y = ymin, rect_w = xmax - xmin + 1, rect_h = ymax - ymin + 1\<rparr>))"

section \<open>Filter, sort, truncate\<close>

text \<open>Line 27: \<^verbatim>\<open>[contour for contour in contours if cv2.contourArea(contour) > 1000]\<close>.\<close>

definition filter_contours :: "contour list \<Rightarrow> contour list" where
  "filter_contours cs = [c \<leftarrow> cs. 1000 < contourArea c]"

text \<open>Line 30: \<^verbatim>\<open>sorted(filtered_contours, key=cv2.contourArea, reverse=True)\<close>.\<close>

definition sort_contours :: "contour list \<Rightarrow> contour list" where
  "sort_contours cs = py_sorted_desc contourArea cs"

text \<open>Line 34: the loop runs over \<^verbatim>\<open>sorted_contours[:5]\<close>.\<close>

definition select_contours :: "contour list \<Rightarrow> contour list" where
  "select_contours cs = py_slice (sort_contours (filter_contours cs)) 0 5"

declare contourArea_def [py_simps] boundingRect_def [py_simps] filter_contours_def [py_simps]
  sort_contours_def [py_simps] select_contours_def [py_simps]

text \<open>
  The contract of \<^verbatim>\<open>cv2.findContours\<close> on a \<open>H \<times> W\<close> image that the recognizer relies
  on: every contour is non-empty and its points are pixels of the image.
\<close>

definition contour_in_image :: "int \<Rightarrow> int \<Rightarrow> contour \<Rightarrow> bool" where
  "contour_in_image W H c \<longleftrightarrow> c \<noteq> [] \<and> (\<forall>(x, y)\<in>set c. 0 \<le> x \<and> x < W \<and> 0 \<le> y \<and> y < H)"

text \<open>
  Sample detections for the witnesses: \<open>square s\<close> is the border of an axis-parallel
  square of side \<open>s\<close> as \<^verbatim>\<open>CHAIN_APPROX_SIMPLE\<close> reports it (its four corners),
  and \<open>diagonal\<close> the contour of a one-pixel-wide diagonal stroke, traced forth and back.
\<close>

definition square :: "int \<Rightarrow> contour" where
  "square s = [(0, 0), (0, s), (s, s), (s, 0)]"

definition diagonal :: contour where
  "diagonal = [(0, 0), (100, 100)]"

text \<open>
  The points of a contour lie on the straight line through \<open>p0\<close> with direction
  \<open>d \<noteq> 0\<close>.
\<close>

definition on_line :: "point \<Rightarrow> int \<times> int \<Rightarrow> contour \<Rightarrow> bool" where
  "on_line p0 d c \<longleftrightarrow>
     d \<noteq> (0, 0) \<and> list_all (\<lambda>(x, y). snd d * (x - fst p0) = fst d * (y - snd p0)) c"


section \<open>Properties of the selector\<close>

lemma select_contours_take_sort:
  "select_contours cs = take 5 (sort_contours (filter_contours cs))"
  using py_slice_prefix [of "sort_contours (filter_contours cs)" 5]
  by (simp add: select_contours_def)

lemma select_contours_take:
  "select_contours cs = take 5 (py_sorted_desc contourArea (filter_contours cs))"
  by (simp add: select_contours_take_sort sort_contours_def)

lemma select_contours_length_eq:
  "length (select_contours cs) = min 5 (length (filter (\<lambda>c. 1000 < contourArea c) cs))"
  by (simp add: select_contours_take filter_contours_def min.commute)

lemma set_select_contours: "set (select_contours cs) \<subseteq> set (filter_contours cs)"
  by (auto simp: select_contours_take dest: in_set_takeD)

lemma select_contours_submset: "mset (select_contours cs) \<subseteq># mset cs"
proof -
  have "mset (select_contours cs) \<subseteq># mset (py_sorted_desc contourArea (filter_contours cs))"
    unfolding select_contours_take by (rule mset_take_subseteq)
  also have "\<dots> \<subseteq># mset cs"
    by (simp add: filter_contours_def multiset_filter_subset)
  finally show ?thesis .
qed

lemma collinear_cross:
  fixes a b x0 y0 x1 y1 x2 y2 :: int
  assumes "b * (x1 - x0) = a * (y1 - y0)" "b * (x2 - x0) = a * (y2 - y0)" "(a, b) \<noteq> (0, 0)"
  shows "(x1 - x0) * (y2 - y0) - (y1 - y0) * (x2 - x0) = 0"
proof -
  have "a * ((x1 - x0) * (y2 - y0) - (y1 - y0) * (x2 - x0)) = 0"
    using assms(1,2) by algebra
  moreover have "b * ((x1 - x0) * (y2 - y0) - (y1 - y0) * (x2 - x0)) = 0"
    using assms(1,2) by algebra
  ultimately show ?thesis using assms(3) by auto
qed

lemma shoelace_on_line:
  assumes "\<forall>(x, y)\<in>set (p # ps). b * (x - x0) = a * (y - y0)" "(a, b) \<noteq> (0, 0)"
  shows "shoelace p ps = (x0 * snd (last (p # ps)) - y0 * fst (last (p # ps))) - (x0 * snd p - y0 * fst p)"
  using assms(1)
proof (induction ps arbitrary: p)
  case Nil
  then show ?case by simp
next
  case (Cons q ps)
  obtain px py where p: "p = (px, py)" by (cases p)
  obtain x y where q: "q = (x, y)" by (cases q)
  have l1: "b * (px - x0) = a * (py - y0)" and l2: "b * (x - x0) = a * (y - y0)"
    using Cons.prems by (auto simp: p q)
  have "(px - x0) * (y - y0) - (py - y0) * (x - x0) = 0"
    using collinear_cross [OF l1 l2 assms(2)] .
  then have step: "px * y - py * x = (x0 * y - y0 * x) - (x0 * py - y0 * px)"
    by algebra
  have "shoelace q ps = (x0 * snd (last (q # ps)) - y0 * fst (last (q # ps))) - (x0 * snd q - y0 * fst q)"
    using Cons.prems by (intro Cons.IH) auto
  then show ?case using step by (simp add: p q)
qed

section \<open>Properties of the bounding rectangle\<close>

lemma boundingRect_Cons:
  "boundingRect ((x0, y0) # ps) =
     \<lparr>rect_x = Min (fst ` set ((x0, y0) # ps)), rect_y = Min (snd ` set ((x0, y0) # ps)),
      rect_w = Max (fst ` set ((x0, y0) # ps)) - Min (fst ` set ((x0, y0) # ps)) + 1,
      rect_h = Max (snd ` set ((x0, y0) # ps)) - Min (snd ` set ((x0, y0) # ps)) + 1\<rparr>"
proof -
  have "fst ` set ((x0, y0) # ps) = set (x0 # map fst ps)"
       "snd ` set ((x0, y0) # ps) = set (y0 # map snd ps)" by auto
  then have "Min (fst ` set ((x0, y0) # ps)) = fold min (map fst ps) x0"
            "Max (fst ` set ((x0, y0) # ps)) = fold max (map fst ps) x0"
            "Min (snd ` set ((x0, y0) # ps)) = fold min (map snd ps) y0"
            "Max (snd ` set ((x0, y0) # ps)) = fold max (map snd ps) y0"
    by (simp_all only: Min.set_eq_fold Max.set_eq_fold)
  then show ?thesis
    by (simp only: boundingRect_def list.case prod.case Let_def)
qed

lemma boundingRect_in_image:
  assumes "contour_in_image W H c"
  shows "0 \<le> rect_x (boundingRect c) \<and> 0 \<le> rect_y (boundingRect c) \<and>
         1 \<le> rect_w (boundingRect c) \<and> 1 \<le> rect_h (boundingRect c) \<and>
         rect_x (boundingRect c) + rect_w (boundingRect c) \<le> W \<and>
         rect_y (boundingRect c) + rect_h (boundingRect c) \<le> H"
proof -
  obtain x0 y0 ps where c: "c = (x0, y0) # ps"
    using assms by (cases c) (auto simp: contour_in_image_def)
  let ?X = "fst ` set c" and ?Y = "snd ` set c"
  have fin: "finite ?X" "finite ?Y" and ne: "?X \<noteq> {}" "?Y \<noteq> {}" using c by auto
  have inX: "\<And>x. x \<in> ?X \<Longrightarrow> 0 \<le> x \<and> x < W" and inY: "\<And>y. y \<in> ?Y \<Longrightarrow> 0 \<le> y \<and> y < H"
    using assms by (auto simp: contour_in_image_def)
  have x1: "0 \<le> Min ?X" and x2: "Max ?X < W"
    using inX Min_in [OF fin(1) ne(1)] Max_in [OF fin(1) ne(1)] by blast+
  have y1: "0 \<le> Min ?Y" and y2: "Max ?Y < H"
    using inY Min_in [OF fin(2) ne(2)] Max_in [OF fin(2) ne(2)] by blast+
  have x3: "Min ?X \<le> Max ?X" by (rule Min_le [OF fin(1) Max_in [OF fin(1) ne(1)]])
  have y3: "Min ?Y \<le> Max ?Y" by (rule Min_le [OF fin(2) Max_in [OF fin(2) ne(2)]])
  have r: "boundingRect c = \<lparr>rect_x = Min ?X, rect_y = Min ?Y, rect_w = Max ?X - Min ?X + 1,
                              rect_h = Max ?Y - Min ?Y + 1\<rparr>"
    unfolding c by (rule boundingRect_Cons)
  show ?thesis
    unfolding r using x1 x2 x3 y1 y2 y3 by simp
qed

section \<open>Claims on the selector\<close>

text \<open>C3: the selector hands at most five regions to the recognizer (line 34).\<close>

theorem select_contours_length: "length (select_contours cs) \<le> 5"
  using py_slice_prefix [of "sort_contours (filter_contours cs)" 5]
  by (simp add: select_contours_def)

text \<open>C4: every selected contour has \<^verbatim>\<open>contourArea\<close> strictly above 1000 (line 27).\<close>

theorem select_contours_area: "\<forall>c\<in>set (select_contours cs). 1000 < contourArea c"
  using set_select_contours by (fastforce simp: filter_contours_def)

text \<open>C5: the selected contours come in non-increasing order of area (line 30).\<close>

theorem select_contours_sorted:
  "sorted_wrt (\<ge>) (map contourArea (select_contours cs))"
  unfolding select_contours_take_sort sort_contours_def
  by (simp add: take_map [symmetric] sorted_wrt_take py_sorted_desc_sorted)

text \<open>
  C6: the selection is the five largest: no qualifying contour left out has a larger area
  than any selected one (counted with multiplicity).
\<close>

theorem select_contours_top:
  "\<forall>d \<in># mset (filter_contours cs) - mset (select_contours cs).
     \<forall>c\<in>set (select_contours cs). contourArea d \<le> contourArea c"
proof (intro ballI)
  let ?S = "py_sorted_desc contourArea (filter_contours cs)"
  fix d c
  assume d: "d \<in># mset (filter_contours cs) - mset (select_contours cs)"
    and c: "c \<in> set (select_contours cs)"
  have "mset (filter_contours cs) - mset (select_contours cs) = mset (drop 5 ?S)"
    by (metis add_diff_cancel_left' append_take_drop_id mset_append mset_py_sorted_desc
        select_contours_take)
  with d have d': "d \<in> set (drop 5 ?S)" by simp
  have "sorted_wrt (\<lambda>x y. contourArea y \<le> contourArea x) ?S"
    using py_sorted_desc_sorted [of contourArea "filter_contours cs"] by (simp add: sorted_wrt_map)
  moreover have "c \<in> set (take 5 ?S)" using c by (simp add: select_contours_take)
  ultimately show "contourArea d \<le> contourArea c"
    using d' by (rule sorted_wrt_take_drop)
qed

text \<open>
  C7: \<^verbatim>\<open>sorted(..., key=cv2.contourArea, reverse=True)\<close>, which CPython computes by
  reversing, sorting stably and reversing again, is the stable sort by decreasing area:
  equal areas keep their detection order.
\<close>

theorem sort_contours_stable_desc:
  "sort_contours cs = sort_key (\<lambda>c. - contourArea c) cs"
  by (simp add: sort_contours_def py_sorted_desc_eq_sort_neg)

text \<open>
  C27: the filter of line 27 measures the polygon area of the contour, not the area of
  its bounding rectangle that the spec names: a contour whose points all lie on one
  straight line (a one-pixel-wide stroke) has \<^verbatim>\<open>contourArea\<close> 0 and is never selected,
  however large its bounding rectangle.
\<close>

theorem collinear_contour_never_selected:
  assumes "on_line p0 d c"
  shows "contourArea c = 0 \<and> c \<notin> set (select_contours cs)"
proof -
  obtain x0 y0 a b where pd: "p0 = (x0, y0)" "d = (a, b)" by (cases p0, cases d)
  have line: "\<forall>(x, y)\<in>set c. b * (x - x0) = a * (y - y0)" and nz: "(a, b) \<noteq> (0, 0)"
    using assms by (auto simp: on_line_def pd list_all_iff)
  have "contourArea c = 0"
  proof (cases "c = []")
    case False
    then have "last c \<in> set c" by simp
    then have "\<forall>(x, y)\<in>set (last c # c). b * (x - x0) = a * (y - y0)" using line by auto
    then have "shoelace (last c) c = 0"
      using shoelace_on_line [OF _ nz] False by (simp add: last_ConsR)
    then show ?thesis by (simp add: contourArea_def)
  qed (simp add: contourArea_def)
  moreover have "c \<notin> set (select_contours cs)"
  proof
    assume "c \<in> set (select_contours cs)"
    then have "c \<in> set (filter_contours cs)" using set_select_contours by blast
    with calculation show False by (simp add: filter_contours_def)
  qed
  ultimately show ?thesis by blast
qed

section \<open>Witnesses\<close>

theorem select_contours_area_witness:
  "select_contours (map square [32, 20, 37]) = [square 37, square 32] \<and>
   1000 < contourArea (square 37) \<and> 1000 < contourArea (square 32)"
proof -
  have sel: "select_contours (map square [32, 20, 37]) = [square 37, square 32]"
    by (simp add: square_def py_simps)
  then show ?thesis using select_contours_area [of "map square [32, 20, 37]"] by simp
qed

theorem select_contours_top_witness:
  "select_contours (map square [32, 37, 34, 35, 36, 33]) = map square [37, 36, 35, 34, 33] \<and>
   contourArea (square 32) \<le> contourArea (square 33)"
proof -
  let ?cs = "map square [32, 37, 34, 35, 36, 33]"
  have sel: "select_contours ?cs = map square [37, 36, 35, 34, 33]"
    by (simp add: square_def py_simps)
  have filt: "filter_contours ?cs = ?cs"
    by (simp add: square_def py_simps)
  have "square 32 \<in># mset (filter_contours ?cs) - mset (select_contours ?cs)"
    unfolding filt sel by (simp add: square_def)
  moreover have "square 33 \<in> set (select_contours ?cs)"
    unfolding sel by simp
  ultimately have "contourArea (square 32) \<le> contourArea (square 33)"
    using select_contours_top [of ?cs] by blast
  with sel show ?thesis by simp
qed

theorem collinear_contour_never_selected_witness:
  "contourArea diagonal = 0 \<and> diagonal \<notin> set (select_contours [diagonal, square 40]) \<and>
   rect_w (boundingRect diagonal) * rect_h (boundingRect diagonal) = 10201"
proof -
  have "on_line (0, 0) (1, 1) diagonal" by (simp add: on_line_def diagonal_def)
  then have "contourArea diagonal = 0 \<and> diagonal \<notin> set (select_contours [diagonal, square 40])"
    by (rule collinear_contour_never_selected)
  then show ?thesis by (simp add: diagonal_def boundingRect_def)
qed
end
