(* ===== verification/Frame.thy ===== *)
theory Frame
  imports Prelude PyText Image Contours
begin

text \<open>
  The Frame Pipeline and Region Recognizer: \<^verbatim>\<open>process_frame\<close> of \<^verbatim>\<open>src/main.py\<close>
  (lines 16 to 47). The libraries it calls whose behaviour is not fixed by the call site
  (\<^verbatim>\<open>cv2.findContours\<close>, \<^verbatim>\<open>cv2.resize\<close>, \<^verbatim>\<open>pytesseract.image_to_string\<close>) are the
  fields of the record \<open>cv_backend\<close>, so that every theorem holds for any implementation of
  them, or for those meeting a stated contract. The attribute lookups of line 24 are modelled
  against the constants the \<^verbatim>\<open>cv2\<close> module defines.
\<close>

record cv_backend =
  findContours :: "gray_image \<Rightarrow> int \<Rightarrow> int \<Rightarrow> contour list result"
  resize :: "gray_image \<Rightarrow> nat \<times> nat \<Rightarrow> gray_image result"
  image_to_string :: "gray_image \<Rightarrow> string \<Rightarrow> pystr result"

section \<open>The \<^verbatim>\<open>cv2\<close> module's constants\<close>

text \<open>
  The integer constants of OpenCV 4's Python module for contour retrieval and
  approximation and the colour and threshold codes the script names. Reading a name the
  module does not define raises \<^verbatim>\<open>AttributeError\<close>.
\<close>

definition cv2_const :: "string \<rightharpoonup> int" where
  "cv2_const = [''COLOR_RGB2BGR'' \<mapsto> 4, ''COLOR_BGR2GRAY'' \<mapsto> 6,
                ''ADAPTIVE_THRESH_MEAN_C'' \<mapsto> 0, ''THRESH_BINARY_INV'' \<mapsto> 1,
                ''RETR_EXTERNAL'' \<mapsto> 0, ''RETR_LIST'' \<mapsto> 1, ''RETR_CCOMP'' \<mapsto> 2,
                ''RETR_TREE'' \<mapsto> 3, ''CHAIN_APPROX_NONE'' \<mapsto> 1,
                ''CHAIN_APPROX_SIMPLE'' \<mapsto> 2, ''CHAIN_APPROX_TC89_L1'' \<mapsto> 3,
                ''CHAIN_APPROX_TC89_KCOS'' \<mapsto> 4]"

definition cv2_attr :: "string \<Rightarrow> int result" where
  "cv2_attr name = (case cv2_const name of None \<Rightarrow> Inl (AttributeError name) | Some v \<Rightarrow> Inr v)"

section \<open>Region Recognizer\<close>

text \<open>
  Lines 35 to 45, one iteration of the loop: the bounding rectangle of the contour, the
  crop \<^verbatim>\<open>gray[y:y+h, x:x+w]\<close>, \<^verbatim>\<open>cv2.resize(roi, (500, 200))\<close> (the size is given
  as width, height), Tesseract with \<^verbatim>\<open>lang='chi_sim'\<close> on
  \<^verbatim>\<open>Image.fromarray(resized_roi)\<close> (the PIL image holds the same pixels), and
  \<^verbatim>\<open>strip()\<close> of the text. Any exception of the two library calls propagates.
\<close>

definition recognize_region :: "cv_backend \<Rightarrow> gray_image \<Rightarrow> contour \<Rightarrow> pystr result" where
  "recognize_region be gray c =
     (let r = boundingRect c;
          roi = crop gray (rect_x r) (rect_y r) (rect_w r) (rect_h r)
      in res_bind (resize be roi (500, 200)) (\<lambda>resized_roi.
         res_bind (image_to_string be resized_roi ''chi_sim'') (\<lambda>text.
         Inr (py_strip text))))"

text \<open>
  Lines 33 to 45: \<^verbatim>\<open>processed_texts\<close> starts empty and each iteration appends the
  recognized text; an exception in any iteration leaves the function.
\<close>

fun recognize_all ::
  "cv_backend \<Rightarrow> gray_image \<Rightarrow> contour list \<Rightarrow> pystr list \<Rightarrow> pystr list result" where
  "recognize_all be gray [] processed_texts = Inr processed_texts"
| "recognize_all be gray (c # cs) processed_texts =
     res_bind (recognize_region be gray c) (\<lambda>text.
       recognize_all be gray cs (processed_texts @ [text]))"

section \<open>Frame Pipeline\<close>

text \<open>
  Lines 16 to 47 with the contour approximation attribute as a parameter: the source reads
  \<^verbatim>\<open>cv2.CHAIN_APPROLOGY_SIMPLE\<close> (line 24), \<open>process_frame\<close> below. The grey
  conversion of line 18 raises on an empty frame.
  Arguments are evaluated before the call, so the attribute lookups of line 24 happen after
  the threshold of line 21 and before \<^verbatim>\<open>findContours\<close> runs. The hierarchy result of
  \<^verbatim>\<open>findContours\<close> is discarded by the script and is not modelled.
\<close>

definition process_frame_with :: "string \<Rightarrow> cv_backend \<Rightarrow> color_image \<Rightarrow> pystr result" where
  "process_frame_with approx be frame =
     res_bind (cvt_bgr2gray frame) (\<lambda>gray.
     res_bind (adaptive_threshold_mean gray 255 THRESH_BINARY_INV 11 2) (\<lambda>thresh.
     res_bind (cv2_attr ''RETR_EXTERNAL'') (\<lambda>mode.
     res_bind (cv2_attr approx) (\<lambda>method.
     res_bind (findContours be thresh mode method) (\<lambda>contours.
     res_bind (recognize_all be gray (select_contours contours) []) (\<lambda>processed_texts.
     Inr (py_join [space] processed_texts)))))))"

definition process_frame :: "cv_backend \<Rightarrow> color_image \<Rightarrow> pystr result" where
  "process_frame = process_frame_with ''CHAIN_APPROLOGY_SIMPLE''"

text \<open>The attribute name OpenCV defines, for the pipeline the script means to run.\<close>

abbreviation approx_simple :: string where
  "approx_simple \<equiv> ''CHAIN_APPROX_SIMPLE''"

declare cv2_const_def [py_simps] cv2_attr_def [py_simps] recognize_region_def [py_simps]
  process_frame_with_def [py_simps] process_frame_def [py_simps]

section \<open>Library contracts\<close>

text \<open>
  What the recognizer needs of \<^verbatim>\<open>findContours\<close> (\<open>RETR_EXTERNAL\<close>,
  \<open>CHAIN_APPROX_SIMPLE\<close>): on an \<open>h \<times> w\<close> binary image it succeeds, every contour
  is a non-empty list of pixels of the image, and an all-zero image has no contour (no
  foreground, no border). And of \<^verbatim>\<open>resize\<close>: a non-empty rectangular input gives a
  \<open>200 \<times> 500\<close> output.
\<close>

definition findContours_contract :: "cv_backend \<Rightarrow> bool" where
  "findContours_contract be \<longleftrightarrow>
     (\<forall>t h w. rectangular t h w \<longrightarrow>
        (\<exists>cs. findContours be t 0 2 = Inr cs \<and> (\<forall>c\<in>set cs. contour_in_image (int w) (int h) c))) \<and>
     (\<forall>h w. findContours be (replicate h (replicate w 0)) 0 2 = Inr [])"

definition resize_contract :: "cv_backend \<Rightarrow> bool" where
  "resize_contract be \<longleftrightarrow>
     (\<forall>img h w. rectangular img h w \<and> 0 < h \<and> 0 < w \<longrightarrow>
        (\<exists>out. resize be img (500, 200) = Inr out \<and> rectangular out 200 500))"

section \<open>Example collaborators\<close>

text \<open>
  Two stand-ins for the libraries, used by the witnesses: \<open>demo_cv\<close> meets both
  contracts (its \<^verbatim>\<open>findContours\<close> reports the image border when some pixel is set), and
  \<open>fixed_cv cs\<close> reports the contours \<open>cs\<close> whatever the image, so that a small frame
  reaches the recognizer. Both resize to a blank \<open>200 \<times> 500\<close> image and read
  \<open>demo_text\<close>, two CJK code points between white space; \<open>failing_ocr\<close> makes
  Tesseract raise.
\<close>

definition border_contour :: "gray_image \<Rightarrow> contour" where
  "border_contour t =
     (let h = int (length t) - 1; w = int (img_width t) - 1 in [(0, 0), (0, h), (w, h), (w, 0)])"

definition demo_text :: pystr where
  "demo_text = [32, 20320, 22909, 10]"

definition demo_cv :: cv_backend where
  "demo_cv =
     \<lparr>findContours = (\<lambda>t mode method.
        Inr (if \<exists>row\<in>set t. \<exists>p\<in>set row. p \<noteq> 0 then [border_contour t] else [])),
      resize = (\<lambda>img (w, h). Inr (replicate h (replicate w 0))),
      image_to_string = (\<lambda>img lang. Inr demo_text)\<rparr>"

definition fixed_cv :: "contour list \<Rightarrow> cv_backend" where
  "fixed_cv cs = demo_cv\<lparr>findContours := (\<lambda>t mode method. Inr cs)\<rparr>"

definition failing_ocr :: "cv_backend \<Rightarrow> cv_backend" where
  "failing_ocr be = be\<lparr>image_to_string := (\<lambda>img lang. Inl (LibError ''TesseractError''))\<rparr>"

section \<open>Properties\<close>

lemma threshold_call_Inr:
  "adaptive_threshold_mean gray 255 THRESH_BINARY_INV 11 2 =
   Inr (map (\<lambda>i. map (thresh_pixel gray 255 THRESH_BINARY_INV 11 2 i) [0..<img_width gray])
            [0..<length gray])"
  by (simp add: adaptive_threshold_mean_def)

lemma cv2_attr_defined:
  "cv2_attr ''RETR_EXTERNAL'' = Inr 0" "cv2_attr approx_simple = Inr 2"
  by (simp_all add: cv2_attr_def cv2_const_def)

lemma cv2_attr_misspelled:
  "cv2_attr ''CHAIN_APPROLOGY_SIMPLE'' = Inl (AttributeError ''CHAIN_APPROLOGY_SIMPLE'')"
  by (simp add: cv2_attr_def cv2_const_def)

lemma recognize_all_eq_res_map:
  "recognize_all be gray cs acc =
   res_bind (res_map (recognize_region be gray) cs) (\<lambda>ts. Inr (acc @ ts))"
proof (induction cs arbitrary: acc)
  case Nil
  then show ?case by simp
next
  case (Cons c cs)
  then show ?case by (cases "recognize_region be gray c"; cases "res_map (recognize_region be gray) cs") auto
qed

lemma process_frame_with_simple:
  "process_frame_with approx_simple be frame =
   res_bind (cvt_bgr2gray frame) (\<lambda>gray.
   res_bind (adaptive_threshold_mean gray 255 THRESH_BINARY_INV 11 2) (\<lambda>thresh.
   res_bind (findContours be thresh 0 2) (\<lambda>contours.
   res_bind (res_map (recognize_region be gray) (select_contours contours)) (\<lambda>texts.
   Inr (py_join [space] texts)))))"
  by (simp add: process_frame_with_def cv2_attr_defined recognize_all_eq_res_map)

lemma process_frame_misspelled:
  "frame \<noteq> [] \<Longrightarrow> 0 < img_width frame \<Longrightarrow>
   process_frame be frame = Inl (AttributeError ''CHAIN_APPROLOGY_SIMPLE'')"
  by (simp add: process_frame_def process_frame_with_def cvt_bgr2gray_def cvt_color_def
      threshold_call_Inr cv2_attr_defined cv2_attr_misspelled)

lemma region_roi_nonempty:
  assumes "rectangular gray h w" "contour_in_image (int w) (int h) c"
  shows "rectangular (crop gray (rect_x (boundingRect c)) (rect_y (boundingRect c))
                                (rect_w (boundingRect c)) (rect_h (boundingRect c)))
                     (nat (rect_h (boundingRect c))) (nat (rect_w (boundingRect c))) \<and>
         0 < nat (rect_h (boundingRect c)) \<and> 0 < nat (rect_w (boundingRect c))"
proof -
  have b: "0 \<le> rect_x (boundingRect c) \<and> 0 \<le> rect_y (boundingRect c) \<and>
         1 \<le> rect_w (boundingRect c) \<and> 1 \<le> rect_h (boundingRect c) \<and>
         rect_x (boundingRect c) + rect_w (boundingRect c) \<le> int w \<and>
         rect_y (boundingRect c) + rect_h (boundingRect c) \<le> int h"
    using assms(2) by (rule boundingRect_in_image)
  then have "rectangular (crop gray (rect_x (boundingRect c)) (rect_y (boundingRect c))
                                (rect_w (boundingRect c)) (rect_h (boundingRect c)))
                     (nat (rect_h (boundingRect c))) (nat (rect_w (boundingRect c)))"
    using crop_in_range [OF assms(1)] by simp
  with b show ?thesis by simp
qed

lemma recognize_region_ok:
  assumes "resize_contract be" "rectangular gray h w" "contour_in_image (int w) (int h) c"
    and ocr: "\<And>img. rectangular img 200 500 \<Longrightarrow> \<exists>s. image_to_string be img ''chi_sim'' = Inr s"
  shows "\<exists>s. recognize_region be gray c = Inr (py_strip s)"
proof -
  let ?r = "boundingRect c"
  let ?roi = "crop gray (rect_x ?r) (rect_y ?r) (rect_w ?r) (rect_h ?r)"
  have "rectangular ?roi (nat (rect_h ?r)) (nat (rect_w ?r)) \<and> 0 < nat (rect_h ?r) \<and> 0 < nat (rect_w ?r)"
    using assms(2,3) by (rule region_roi_nonempty)
  then obtain out where out: "resize be ?roi (500, 200) = Inr out" "rectangular out 200 500"
    using assms(1) unfolding resize_contract_def by blast
  obtain s where "image_to_string be out ''chi_sim'' = Inr s"
    using ocr [OF out(2)] by blast
  with out(1) show ?thesis by (auto simp: recognize_region_def Let_def)
qed

lemma demo_cv_findContours_contract: "findContours_contract demo_cv"
proof -
  have "contour_in_image (int w) (int h) (border_contour t)"
    if "rectangular t h w" "\<exists>row\<in>set t. \<exists>p\<in>set row. p \<noteq> 0" for t h w
  proof -
    have "0 < h" using that by (auto simp: rectangular_def)
    moreover have "0 < w" using that by (auto simp: rectangular_def)
    ultimately show ?thesis
      using that rectangular_img_width [OF that(1)]
      by (auto simp: contour_in_image_def border_contour_def Let_def rectangular_def)
  qed
  then show ?thesis
    by (auto simp: findContours_contract_def demo_cv_def)
qed

lemma demo_cv_resize_contract: "resize_contract demo_cv"
  by (simp add: resize_contract_def demo_cv_def rectangular_def)

lemma adaptive_threshold_rect:
  "rectangular gray h w \<Longrightarrow>
   \<exists>t. adaptive_threshold_mean gray 255 THRESH_BINARY_INV 11 2 = Inr t \<and> rectangular t h w"
  using adaptive_threshold_binary [of gray h w 11 THRESH_BINARY_INV 2] by auto

section \<open>Claims on the frame pipeline\<close>

text \<open>
  C1: as written, \<^verbatim>\<open>process_frame\<close> always raises: \<^verbatim>\<open>AttributeError\<close> at
  line 24 for every non-empty frame (\<^verbatim>\<open>cv2\<close> has no attribute
  \<^verbatim>\<open>CHAIN_APPROLOGY_SIMPLE\<close>), whatever the libraries, and \<^verbatim>\<open>cvtColor\<close>'s
  assertion at line 18 for an empty one.
\<close>

theorem process_frame_raises:
  "process_frame be frame =
     (if frame = [] \<or> img_width frame = 0 then Inl (CvError ''!_src.empty()'')
      else Inl (AttributeError ''CHAIN_APPROLOGY_SIMPLE''))"
  by (simp add: process_frame_def process_frame_with_def cvt_bgr2gray_def cvt_color_def
      threshold_call_Inr cv2_attr_defined cv2_attr_misspelled)

text \<open>
  C8: with the attribute spelled \<^verbatim>\<open>CHAIN_APPROX_SIMPLE\<close>, when every selected region is
  recognized, the result is the recognized texts joined by single spaces in the selector's
  order (largest area first).
\<close>

theorem process_frame_joins_texts:
  assumes "cvt_bgr2gray frame = Inr gray"
    and "adaptive_threshold_mean gray 255 THRESH_BINARY_INV 11 2 = Inr t"
    and "findContours be t 0 2 = Inr cs"
    and "\<forall>c\<in>set (select_contours cs). recognize_region be gray c = Inr (ocr_text c)"
  shows "process_frame_with approx_simple be frame =
           Inr (py_join [space] (map ocr_text (select_contours cs)))"
  using assms by (simp add: process_frame_with_simple res_map_all_Inr)

text \<open>
  C9: the error policy of the pipeline is fail-fast: the first selected region whose
  resize or OCR raises makes the whole frame raise that exception; no partial text is
  returned.
\<close>

theorem process_frame_fail_fast:
  assumes "cvt_bgr2gray frame = Inr gray"
    and "adaptive_threshold_mean gray 255 THRESH_BINARY_INV 11 2 = Inr t"
    and "findContours be t 0 2 = Inr cs"
    and "select_contours cs = ys @ z # zs"
    and "\<forall>c\<in>set ys. recognize_region be gray c = Inr (ocr_text c)"
    and "recognize_region be gray z = Inl e"
  shows "process_frame_with approx_simple be frame = Inl e"
proof -
  have "res_map (recognize_region be gray) (ys @ z # zs) = Inl e"
    using assms(5,6) by (intro res_map_first_error) auto
  with assms(1-4) show ?thesis by (simp add: process_frame_with_simple)
qed

text \<open>
  C10: with the attribute spelled correctly, when \<^verbatim>\<open>findContours\<close> and
  \<^verbatim>\<open>resize\<close> meet their contracts and Tesseract does not raise on a \<open>200 \<times> 500\<close>
  image, \<^verbatim>\<open>process_frame\<close> returns a string for every non-empty rectangular frame.
\<close>

theorem process_frame_succeeds:
  assumes fc: "findContours_contract be" and rs: "resize_contract be"
    and ocr: "\<forall>img. rectangular img 200 500 \<longrightarrow> (\<exists>s. image_to_string be img ''chi_sim'' = Inr s)"
    and fr: "rectangular frame h w" "0 < h" "0 < w"
  shows "\<exists>s. process_frame_with approx_simple be frame = Inr s"
proof -
  let ?gray = "map (map gray_of_bgr) frame"
  have cv: "cvt_bgr2gray frame = Inr ?gray"
    unfolding cvt_bgr2gray_def using fr by (rule cvt_color_rect)
  have g: "rectangular ?gray h w" using fr by simp
  obtain t where t: "adaptive_threshold_mean ?gray 255 THRESH_BINARY_INV 11 2 = Inr t"
    "rectangular t h w"
    using adaptive_threshold_rect [OF g] by blast
  obtain cs where cs: "findContours be t 0 2 = Inr cs"
    "\<forall>c\<in>set cs. contour_in_image (int w) (int h) c"
    using fc t(2) unfolding findContours_contract_def by blast
  have "\<forall>c\<in>set (select_contours cs). \<exists>s. recognize_region be ?gray c = Inr (py_strip s)"
    using set_select_contours cs(2) ocr recognize_region_ok [OF rs g]
    by (fastforce simp: filter_contours_def)
  then have "\<exists>f. \<forall>c\<in>set (select_contours cs). recognize_region be ?gray c = Inr (py_strip (f c))"
    by (rule bchoice)
  then obtain f where "\<forall>c\<in>set (select_contours cs). recognize_region be ?gray c = Inr (py_strip (f c))"
    by blast
  then have "res_map (recognize_region be ?gray) (select_contours cs) =
             Inr (map (\<lambda>c. py_strip (f c)) (select_contours cs))"
    by (intro res_map_all_Inr) auto
  with cv t(1) cs(1) show ?thesis by (simp add: process_frame_with_simple)
qed

text \<open>
  C12: every region the selector hands to the recognizer crops, by
  \<^verbatim>\<open>gray[y:y+h, x:x+w]\<close>, a non-empty array of exactly its bounding rectangle's size,
  when the contours are pixels of the image; so \<^verbatim>\<open>cv2.resize\<close> never sees an empty array.
\<close>

theorem selected_crops_nonempty:
  assumes "rectangular gray h w" "\<forall>c\<in>set cs. contour_in_image (int w) (int h) c"
    and "c \<in> set (select_contours cs)"
  shows "rectangular (crop gray (rect_x (boundingRect c)) (rect_y (boundingRect c))
                                (rect_w (boundingRect c)) (rect_h (boundingRect c)))
                     (nat (rect_h (boundingRect c))) (nat (rect_w (boundingRect c))) \<and>
         0 < rect_h (boundingRect c) \<and> 0 < rect_w (boundingRect c)"
proof -
  have "c \<in> set cs" using assms(3) set_select_contours by (fastforce simp: filter_contours_def)
  then have "contour_in_image (int w) (int h) c" using assms(2) by blast
  then show ?thesis using region_roi_nonempty [OF assms(1)] by auto
qed

text \<open>
  C13: the threshold call of line 21 never raises and gives a binary image (every pixel 0
  or 255) of the frame's shape.
\<close>

theorem threshold_call_binary:
  "rectangular gray h w \<Longrightarrow>
   \<exists>t. adaptive_threshold_mean gray 255 THRESH_BINARY_INV 11 2 = Inr t \<and> rectangular t h w \<and>
       (\<forall>row\<in>set t. \<forall>p\<in>set row. p = 0 \<or> p = 255)"
  by (rule adaptive_threshold_binary) simp_all

text \<open>
  C15: with the attribute spelled correctly, a frame none of whose contours has area above
  1000 gives the empty string, without calling the recognizer.
\<close>

theorem process_frame_small_contours:
  assumes "cvt_bgr2gray frame = Inr gray"
    and "adaptive_threshold_mean gray 255 THRESH_BINARY_INV 11 2 = Inr t"
    and "findContours be t 0 2 = Inr cs"
    and "\<forall>c\<in>set cs. contourArea c \<le> 1000"
  shows "process_frame_with approx_simple be frame = Inr []"
proof -
  have "filter_contours cs = []"
    using assms(4) by (auto simp: filter_contours_def filter_empty_conv)
  then have "select_contours cs = []" by (simp add: select_contours_take)
  with assms(1-3) show ?thesis by (simp add: process_frame_with_simple)
qed

text \<open>
  C28: an empty frame (no row, or rows of no pixel) makes the pipeline raise OpenCV's
  assertion error at the grey conversion of line 18, whatever the attribute of line 24;
  the spec gives the pipeline no failure case for it.
\<close>

theorem process_frame_empty_frame:
  "frame = [] \<or> img_width frame = 0 \<Longrightarrow>
   process_frame_with approx be frame = Inl (CvError ''!_src.empty()'')"
  by (auto simp: process_frame_with_def cvt_bgr2gray_def cvt_color_def)

text \<open>
  C31: the inverted threshold of line 21 marks as foreground only pixels darker than their
  surroundings (the spec's "inverted polarity so that ink becomes foreground"): a pixel set
  to 255 has a pixel at least 2 brighter in its \<open>11 \<times> 11\<close> neighbourhood (borders
  replicated). A uniform or locally brightest pixel is never foreground.
\<close>

theorem foreground_has_brighter_neighbour:
  assumes thr: "adaptive_threshold_mean gray 255 THRESH_BINARY_INV 11 2 = Inr t"
    and rect: "rectangular gray h w" and ij: "i < h" "j < w"
    and fg: "t ! i ! j = 255"
  shows "\<exists>di dj. \<bar>di\<bar> \<le> 5 \<and> \<bar>dj\<bar> \<le> 5 \<and>
           uint (gray ! i ! j) + 2 \<le> int (pixel_replicate gray (int i + di) (int j + dj))"
proof (rule ccontr)
  have u: "uint (gray ! i ! j) = int (unat (gray ! i ! j))" by simp
  assume no: "\<not> ?thesis"
  have nb: "int (pixel_replicate gray (int i + di) (int j + dj)) < uint (gray ! i ! j) + 2"
    if "\<bar>di\<bar> \<le> 5" "\<bar>dj\<bar> \<le> 5" for di dj
    using no that by (meson not_le)
  have "\<forall>di\<in>{- int (11 div 2)..int (11 div 2)}. \<forall>dj\<in>{- int (11 div 2)..int (11 div 2)}.
          pixel_replicate gray (int i + di) (int j + dj) \<le> unat (gray ! i ! j) + 1"
  proof (intro ballI)
    fix di dj
    assume "di \<in> {- int (11 div 2)..int (11 div 2)}" "dj \<in> {- int (11 div 2)..int (11 div 2)}"
    then have "\<bar>di\<bar> \<le> 5" "\<bar>dj\<bar> \<le> 5" by auto
    then have "int (pixel_replicate gray (int i + di) (int j + dj)) < uint (gray ! i ! j) + 2"
      by (rule nb)
    then show "pixel_replicate gray (int i + di) (int j + dj) \<le> unat (gray ! i ! j) + 1"
      unfolding u by linarith
  qed
  then have mean: "box_mean 11 gray i j \<le> unat (gray ! i ! j) + 1"
    by (rule box_mean_le [rotated]) simp
  have wd: "img_width gray = w" using rect ij by (intro rectangular_img_width) auto
  have len: "length gray = h" using rect by (simp add: rectangular_def)
  have "t ! i ! j = thresh_pixel gray 255 THRESH_BINARY_INV 11 2 i j"
    using thr ij wd len by (auto simp: adaptive_threshold_mean_def)
  also have "\<dots> = 0"
  proof -
    have "\<not> uint (gray ! i ! j) - int (box_mean 11 gray i j) \<le> - 2"
      using mean unfolding u by linarith
    then show ?thesis by (simp add: thresh_pixel_def)
  qed
  finally show False using fg by simp
qed

text \<open>
  C33: the spec's blank-image scenario: with the attribute spelled correctly and a
  \<^verbatim>\<open>findContours\<close> meeting its contract, every non-empty frame of one uniform colour
  thresholds to an all-zero image (\<^verbatim>\<open>THRESH_BINARY_INV\<close> with \<open>C = 2 > 0\<close>),
  has no contour, and gives the empty string.
\<close>

theorem uniform_frame_empty_text:
  assumes fc: "findContours_contract be"
    and fr: "rectangular frame h w" "0 < h" "0 < w"
    and uni: "\<forall>row\<in>set frame. \<forall>p\<in>set row. p = q"
  shows "process_frame_with approx_simple be frame = Inr []"
proof -
  let ?gray = "map (map gray_of_bgr) frame"
  have cv: "cvt_bgr2gray frame = Inr ?gray"
    unfolding cvt_bgr2gray_def using fr by (rule cvt_color_rect)
  have g: "rectangular ?gray h w" using fr(1) by simp
  have u: "\<forall>row\<in>set ?gray. \<forall>p\<in>set row. p = gray_of_bgr q" using uni by auto
  have "adaptive_threshold_mean ?gray 255 THRESH_BINARY_INV 11 2 = Inr (replicate h (replicate w 0))"
    by (rule adaptive_threshold_uniform_inv [OF g _ _ _ u]) simp_all
  moreover have "findContours be (replicate h (replicate w 0)) 0 2 = Inr []"
    using fc by (simp add: findContours_contract_def)
  ultimately show ?thesis
    using cv by (simp add: process_frame_with_def cv2_attr_defined select_contours_take
        filter_contours_def)
qed

section \<open>Witnesses\<close>

lemma black_pixel_gray: "cvt_bgr2gray [[(0, 0, 0)]] = Inr [[0]]"
  by (simp add: py_simps)

lemma black_pixel_threshold:
  "adaptive_threshold_mean [[0]] 255 THRESH_BINARY_INV 11 2 = Inr [[0]]"
  by (simp add: py_simps upto.simps)

lemma recognize_square_fixed:
  "recognize_region (fixed_cv cs) [[0]] (square 40) = Inr [20320, 22909]"
  by (simp add: fixed_cv_def demo_cv_def demo_text_def square_def py_simps)

theorem process_frame_joins_texts_witness:
  "process_frame_with approx_simple (fixed_cv [square 40]) [[(0, 0, 0)]] = Inr [20320, 22909]"
proof -
  have fc: "findContours (fixed_cv [square 40]) [[0]] 0 2 = Inr [square 40]"
    by (simp add: fixed_cv_def)
  have sel: "select_contours [square 40] = [square 40]"
    by (simp add: square_def py_simps)
  have "\<forall>c\<in>set (select_contours [square 40]).
          recognize_region (fixed_cv [square 40]) [[0]] c = Inr [20320, 22909]"
    using recognize_square_fixed by (simp add: sel)
  from process_frame_joins_texts [OF black_pixel_gray black_pixel_threshold fc this] sel show ?thesis by simp
qed

theorem process_frame_fail_fast_witness:
  "process_frame_with approx_simple (failing_ocr (fixed_cv [square 40])) [[(0, 0, 0)]] =
   Inl (LibError ''TesseractError'')"
proof -
  have fc: "findContours (failing_ocr (fixed_cv [square 40])) [[0]] 0 2 = Inr [square 40]"
    by (simp add: fixed_cv_def failing_ocr_def)
  have sel: "select_contours [square 40] = [] @ square 40 # []"
    by (simp add: square_def py_simps)
  have bad: "recognize_region (failing_ocr (fixed_cv [square 40])) [[0]] (square 40)
             = Inl (LibError ''TesseractError'')"
    by (simp add: failing_ocr_def fixed_cv_def demo_cv_def square_def py_simps)
  show ?thesis
    by (rule process_frame_fail_fast [OF black_pixel_gray black_pixel_threshold fc sel _ bad, where ocr_text = "\<lambda>_. []"]) simp
qed

theorem process_frame_succeeds_witness:
  "\<exists>s. process_frame_with approx_simple demo_cv [[(0, 0, 0), (255, 255, 255)]] = Inr s"
proof (rule process_frame_succeeds)
  show "findContours_contract demo_cv" by (rule demo_cv_findContours_contract)
  show "resize_contract demo_cv" by (rule demo_cv_resize_contract)
  show "\<forall>img. rectangular img 200 500 \<longrightarrow> (\<exists>s. image_to_string demo_cv img ''chi_sim'' = Inr s)"
    by (simp add: demo_cv_def)
  show "rectangular [[(0::u8, 0::u8, 0::u8), (255, 255, 255)]] 1 2"
    by (simp add: rectangular_def)
  show "0 < (1::nat)" "0 < (2::nat)" by simp_all
qed

theorem selected_crops_nonempty_witness:
  "rectangular (crop (replicate 41 (replicate 41 (0::u8))) 0 0 41 41) 41 41"
proof -
  have r: "rectangular (replicate 41 (replicate 41 (0::u8))) 41 41" by (simp add: rectangular_def)
  have c: "\<forall>c\<in>set [square 40]. contour_in_image (int 41) (int 41) c"
    by (simp add: contour_in_image_def square_def)
  have m: "square 40 \<in> set (select_contours [square 40])"
    by (simp add: square_def py_simps)
  have b: "boundingRect (square 40) = \<lparr>rect_x = 0, rect_y = 0, rect_w = 41, rect_h = 41\<rparr>"
    by (simp add: square_def boundingRect_def)
  show ?thesis using selected_crops_nonempty [OF r c m] by (simp add: b)
qed

theorem threshold_call_binary_witness:
  "\<exists>t. adaptive_threshold_mean [[7, 200]] 255 THRESH_BINARY_INV 11 2 = Inr t \<and> rectangular t 1 2 \<and>
       (\<forall>row\<in>set t. \<forall>p\<in>set row. p = 0 \<or> p = 255)"
  by (rule threshold_call_binary) (simp add: rectangular_def)

theorem process_frame_small_contours_witness:
  "process_frame_with approx_simple (fixed_cv [square 20, diagonal]) [[(0, 0, 0)]] = Inr []"
proof (rule process_frame_small_contours [OF black_pixel_gray black_pixel_threshold])
  show "findContours (fixed_cv [square 20, diagonal]) [[0]] 0 2 = Inr [square 20, diagonal]"
    by (simp add: fixed_cv_def)
  show "\<forall>c\<in>set [square 20, diagonal]. contourArea c \<le> 1000"
    by (simp add: square_def diagonal_def contourArea_def)
qed

theorem process_frame_empty_frame_witness:
  "process_frame_with approx_simple demo_cv [[]] = Inl (CvError ''!_src.empty()'')"
  using process_frame_empty_frame [of "[[]]" approx_simple demo_cv] by (simp add: img_width_def)

theorem foreground_has_brighter_neighbour_witness:
  "\<exists>di dj. \<bar>di\<bar> \<le> 5 \<and> \<bar>dj\<bar> \<le> 5 \<and>
     uint ([[7, 200]] ! 0 ! 0 :: u8) + 2 \<le> int (pixel_replicate [[7, 200]] (int 0 + di) (int 0 + dj))"
proof -
  have thr: "adaptive_threshold_mean [[7, 200]] 255 THRESH_BINARY_INV 11 2 = Inr [[255, 0]]"
    by (simp add: py_simps upto.simps)
  have rect: "rectangular [[7, 200 :: u8]] 1 2" by (simp add: rectangular_def)
  show ?thesis
    by (rule foreground_has_brighter_neighbour [OF thr rect]) simp_all
qed

theorem uniform_frame_empty_text_witness:
  "process_frame_with approx_simple demo_cv [[(7, 8, 9), (7, 8, 9)]] = Inr []"
  by (rule uniform_frame_empty_text [OF demo_cv_findContours_contract, where h = 1 and w = 2 and q = "(7, 8, 9)"])
     (simp_all add: rectangular_def)

end
