(* ===== verification/MainLoop.thy ===== *)
theory MainLoop
  imports Prelude PyText Image Contours Frame
begin

text \<open>
  The capture/translate/render loop: \<^verbatim>\<open>detect_and_translate\<close> (lines 11 to 14) and
  \<^verbatim>\<open>main\<close> (lines 49 to 82) of \<^verbatim>\<open>src/main.py\<close>. The state of the loop is the
  \<^verbatim>\<open>running\<close> flag, the pixels of the window surface, what the display shows after the
  last \<^verbatim>\<open>flip\<close>, and the number of clock ticks. The translation client and the font
  renderer are opaque; they and pygame's per-pixel blending are the fields of
  \<open>ui_backend\<close>. The frame processor is a parameter \<open>pf\<close> of the loop, instantiated
  with \<open>process_frame\<close> of theory \<open>Frame\<close> for the script as written.
\<close>

type_synonym rgb = pixel3
type_synonym rgba = "u8 \<times> u8 \<times> u8 \<times> u8"
type_synonym text_surface = "rgba list list"

record ui_backend =
  translate :: "pystr \<Rightarrow> string \<Rightarrow> (string \<rightharpoonup> pystr) result"
  render :: "pystr \<Rightarrow> bool \<Rightarrow> rgb \<Rightarrow> text_surface result"
  blend :: "rgba \<Rightarrow> rgb \<Rightarrow> rgb"

section \<open>Translation\<close>

text \<open>
  Lines 11 to 14: \<^verbatim>\<open>client.translate(text, target_language='en-US')\<close> returns a
  dictionary; \<^verbatim>\<open>result['translatedText']\<close> raises \<^verbatim>\<open>KeyError\<close> when the key is missing.
\<close>

definition detect_and_translate :: "ui_backend \<Rightarrow> pystr \<Rightarrow> pystr result" where
  "detect_and_translate ui text =
     res_bind (translate ui text ''en-US'') (\<lambda>result.
       case result ''translatedText'' of
         None \<Rightarrow> Inl (KeyError ''translatedText'')
       | Some t \<Rightarrow> Inr t)"

section \<open>Events\<close>

datatype event = QUIT | OtherEvent nat

text \<open>Lines 59 to 61: every \<^verbatim>\<open>QUIT\<close> event of the batch clears \<^verbatim>\<open>running\<close>.\<close>

fun handle_events :: "event list \<Rightarrow> bool \<Rightarrow> bool" where
  "handle_events [] running = running"
| "handle_events (e # es) running = handle_events es (if e = QUIT then False else running)"

section \<open>Surfaces\<close>

definition screen_width :: nat where "screen_width = 1920"
definition screen_height :: nat where "screen_height = 1080"

definition black :: rgb where "black = (0, 0, 0)"
definition white :: rgb where "white = (255, 255, 255)"

text \<open>
  \<^verbatim>\<open>pygame.surfarray.array3d(surface)\<close> indexes the pixels as \<open>[x][y]\<close>: its first
  axis is the surface's width. With a surface stored as its rows, the array is the
  transpose.
\<close>

definition array3d :: "rgb list list \<Rightarrow> rgb list list" where
  "array3d s = map (\<lambda>x. map (\<lambda>y. s ! y ! x) [0..<length s]) [0..<img_width s]"

text \<open>Line 73: \<^verbatim>\<open>game_window.fill((0, 0, 0))\<close>.\<close>

definition fill :: "rgb \<Rightarrow> rgb list list \<Rightarrow> rgb list list" where
  "fill c s = map (map (\<lambda>_. c)) s"

text \<open>
  Line 76: \<^verbatim>\<open>text_surface.get_rect(center=(width // 2, height // 2))\<close>; pygame places the
  top-left corner at the centre minus half the size, halved by C integer division.
\<close>

definition text_rect :: "text_surface \<Rightarrow> rect" where
  "text_rect surf =
     (let w = int (img_width surf); h = int (length surf)
      in \<lparr>rect_x = int (screen_width div 2) - w div 2, rect_y = int (screen_height div 2) - h div 2,
          rect_w = w, rect_h = h\<rparr>)"

text \<open>
  Line 77: \<^verbatim>\<open>game_window.blit(text_surface, text_rect)\<close> draws the source at the
  rectangle's top-left corner, clipped to the window, compositing each source pixel over
  the window pixel with the surfaces' blend.
\<close>

definition blit ::
  "(rgba \<Rightarrow> rgb \<Rightarrow> rgb) \<Rightarrow> rgb list list \<Rightarrow> text_surface \<Rightarrow> int \<Rightarrow> int \<Rightarrow> rgb list list" where
  "blit bl dst src x0 y0 =
     map (\<lambda>i. map (\<lambda>j.
           let si = int i - y0; sj = int j - x0
           in if 0 \<le> si \<and> si < int (length src) \<and> 0 \<le> sj \<and> sj < int (img_width src)
              then bl (src ! nat si ! nat sj) (dst ! i ! j) else dst ! i ! j)
         [0..<img_width dst])
       [0..<length dst]"

text \<open>
  Lines 73 to 77 as one drawing step: the window is filled black (line 73), the text
  surface is centred (line 76) and blitted (line 77). The font of line 74 and the render
  of line 75 do not read the window.
\<close>

definition redraw :: "ui_backend \<Rightarrow> rgb list list \<Rightarrow> text_surface \<Rightarrow> rgb list list" where
  "redraw ui win surf =
     (let filled = fill black win; r = text_rect surf
      in blit (blend ui) filled surf (rect_x r) (rect_y r))"

section \<open>The loop\<close>

record app_state =
  running :: bool
  window :: "rgb list list"
  shown :: "rgb list list"
  ticks :: nat

text \<open>
  Lines 50 to 57: \<^verbatim>\<open>pygame.display.set_mode((1920, 1080))\<close> gives a black window of
  1080 rows of 1920 pixels; \<^verbatim>\<open>running = True\<close>.
\<close>

definition init_state :: app_state where
  "init_state =
     \<lparr>running = True, window = replicate screen_height (replicate screen_width black),
      shown = replicate screen_height (replicate screen_width black), ticks = 0\<rparr>"

text \<open>
  Line 64: the frame handed to \<^verbatim>\<open>process_frame\<close> is the window's own pixels,
  \<^verbatim>\<open>cv2.cvtColor(pygame.surfarray.array3d(game_window), cv2.COLOR_RGB2BGR)\<close>,
  which raises for an empty array.
\<close>

definition capture :: "app_state \<Rightarrow> color_image result" where
  "capture st = cvt_rgb2bgr (array3d (window st))"

text \<open>
  One iteration of \<^verbatim>\<open>while running\<close> (lines 59 to 80): the events, the capture, the
  frame processor, the translation, the fill, the render with \<^verbatim>\<open>SysFont('arial', 24)\<close>,
  the blit, \<^verbatim>\<open>display.flip()\<close> and \<^verbatim>\<open>clock.tick(30)\<close>. The new value of
  \<^verbatim>\<open>running\<close> is only tested at the next iteration: the rest of the body still runs.
  An exception anywhere in the body leaves \<^verbatim>\<open>main\<close>.
\<close>

definition loop_body ::
  "(color_image \<Rightarrow> pystr result) \<Rightarrow> ui_backend \<Rightarrow> event list \<Rightarrow> app_state \<Rightarrow> app_state result" where
  "loop_body pf ui evs st =
     (let running' = handle_events evs (running st)
      in res_bind (capture st) (\<lambda>screen.
         res_bind (pf screen) (\<lambda>text.
         res_bind (detect_and_translate ui text) (\<lambda>translated_text.
         res_bind (render ui translated_text True white) (\<lambda>text_surface.
           let drawn = redraw ui (window st) text_surface
           in Inr (st\<lparr>running := running', window := drawn, shown := drawn,
                      ticks := Suc (ticks st)\<rparr>))))))"

text \<open>
  How \<^verbatim>\<open>main\<close> ends: \<open>Exited\<close> when the \<^verbatim>\<open>while\<close> test fails (then
  \<^verbatim>\<open>pygame.quit()\<close> runs), \<open>Crashed\<close> when an exception leaves the loop, and
  \<open>Waiting\<close> when the environment has delivered no further batch of events while the
  loop still runs.
\<close>

datatype outcome = Exited app_state | Crashed py_error | Waiting app_state

text \<open>
  The loop over the batches of events that \<^verbatim>\<open>pygame.event.get()\<close> returns, one batch
  per iteration: the recursion is on the list of batches the environment supplies.
\<close>

fun run_loop ::
  "(color_image \<Rightarrow> pystr result) \<Rightarrow> ui_backend \<Rightarrow> event list list \<Rightarrow> app_state \<Rightarrow> outcome" where
  "run_loop pf ui [] st = (if running st then Waiting st else Exited st)"
| "run_loop pf ui (evs # rest) st =
     (if running st
      then (case loop_body pf ui evs st of
              Inl e \<Rightarrow> Crashed e
            | Inr st' \<Rightarrow> run_loop pf ui rest st')
      else Exited st)"

definition main :: "cv_backend \<Rightarrow> ui_backend \<Rightarrow> event list list \<Rightarrow> outcome" where
  "main cv ui inputs = run_loop (process_frame cv) ui inputs init_state"

text \<open>The reachable states of the loop, whatever the events and the collaborators do.\<close>

inductive reachable ::
  "(color_image \<Rightarrow> pystr result) \<Rightarrow> ui_backend \<Rightarrow> app_state \<Rightarrow> bool" for pf ui where
  start: "reachable pf ui init_state"
| step: "reachable pf ui st \<Longrightarrow> running st \<Longrightarrow> loop_body pf ui evs st = Inr st' \<Longrightarrow>
         reachable pf ui st'"

definition app_inv :: "app_state \<Rightarrow> bool" where
  "app_inv st \<longleftrightarrow> rectangular (window st) screen_height screen_width \<and> shown st = window st"

text \<open>
  Stand-ins for the witnesses: a frame processor that finds no text, a translation client
  that echoes its input under the key \<^verbatim>\<open>translatedText\<close>, one that answers without
  that key, a one-pixel white rendering, and a one-pixel window.
\<close>

definition demo_pf :: "color_image \<Rightarrow> pystr result" where
  "demo_pf frame = Inr []"

definition demo_ui :: ui_backend where
  "demo_ui =
     \<lparr>translate = (\<lambda>text lang. Inr [''translatedText'' \<mapsto> text]),
      render = (\<lambda>text antialias colour. Inr [[(255, 255, 255, 255)]]),
      blend = (\<lambda>(r, g, b, a) dst. (r, g, b))\<rparr>"

definition keyless_ui :: ui_backend where
  "keyless_ui = demo_ui\<lparr>translate := (\<lambda>text lang. Inr Map.empty)\<rparr>"

definition small_state :: app_state where
  "small_state = \<lparr>running = True, window = [[black]], shown = [[black]], ticks = 0\<rparr>"

declare detect_and_translate_def [py_simps] screen_width_def [py_simps]
  screen_height_def [py_simps] black_def [py_simps] white_def [py_simps] array3d_def [py_simps]
  fill_def [py_simps] text_rect_def [py_simps] blit_def [py_simps] init_state_def [py_simps]
  capture_def [py_simps] redraw_def [py_simps] loop_body_def [py_simps] main_def [py_simps]

inductive_cases reachable_stepE: "reachable pf ui st'"

section \<open>Properties\<close>

lemma handle_events_iff: "handle_events evs r \<longleftrightarrow> r \<and> QUIT \<notin> set evs"
  by (induction evs arbitrary: r) (simp_all add: eq_commute [of QUIT])

lemma loop_body_Inr:
  assumes "loop_body pf ui evs st = Inr st'"
  shows "\<exists>scr t0 tt surf. capture st = Inr scr \<and> pf scr = Inr t0 \<and>
           detect_and_translate ui t0 = Inr tt \<and>
           render ui tt True white = Inr surf \<and>
           st' = st\<lparr>running := running st \<and> QUIT \<notin> set evs,
                    window := redraw ui (window st) surf, shown := redraw ui (window st) surf,
                    ticks := Suc (ticks st)\<rparr>"
  using assms by (auto simp: loop_body_def Let_def handle_events_iff res_bind_eq_Inr)

lemma rectangular_blit:
  "rectangular dst h w \<Longrightarrow> rectangular (blit bl dst src x y) h w"
  by (cases "h = 0") (auto simp: blit_def rectangular_def rectangular_img_width)

lemma fill_rectangular:
  "rectangular s h w \<Longrightarrow> fill c s = replicate h (replicate w c)"
  unfolding fill_def rectangular_def
  by (induction s arbitrary: h) (auto simp: map_replicate_const)

lemma app_inv_init: "app_inv init_state"
  by (simp add: app_inv_def init_state_def rectangular_def)

lemma rectangular_redraw:
  "rectangular win h w \<Longrightarrow> rectangular (redraw ui win surf) h w"
  unfolding redraw_def Let_def by (rule rectangular_blit) (simp add: fill_def)

lemma loop_body_fields:
  assumes "loop_body pf ui evs st = Inr st'"
  shows "running st' = (running st \<and> QUIT \<notin> set evs) \<and> ticks st' = Suc (ticks st) \<and>
         shown st' = window st' \<and>
         (\<forall>h w. rectangular (window st) h w \<longrightarrow> rectangular (window st') h w)"
  using loop_body_Inr [OF assms] by (auto simp: rectangular_redraw)

lemma app_inv_step:
  assumes "app_inv st" "loop_body pf ui evs st = Inr st'"
  shows "app_inv st'"
proof -
  obtain surf where st': "st' = st\<lparr>running := running st \<and> QUIT \<notin> set evs,
        window := redraw ui (window st) surf, shown := redraw ui (window st) surf,
        ticks := Suc (ticks st)\<rparr>"
    using loop_body_Inr [OF assms(2)] by blast
  have "rectangular (window st) screen_height screen_width"
    using assms(1) by (simp add: app_inv_def)
  then show ?thesis by (simp add: st' app_inv_def rectangular_redraw)
qed

lemma array3d_uniform:
  assumes h: "0 < h"
  shows "array3d (replicate h (replicate w c)) = replicate w (replicate h c)"
proof -
  have wd: "img_width (replicate h (replicate w c)) = w"
    using h by (cases h) (simp_all add: img_width_def)
  have inner: "map (\<lambda>y. replicate h (replicate w c) ! y ! x) [0..<h] = replicate h c"
    if "x < w" for x
  proof -
    have "map (\<lambda>y. replicate h (replicate w c) ! y ! x) [0..<h] = map (\<lambda>_. c) [0..<h]"
      using that by (intro map_cong) auto
    then show ?thesis by (simp add: map_replicate_const)
  qed
  have "map (\<lambda>x. map (\<lambda>y. replicate h (replicate w c) ! y ! x) [0..<h]) [0..<w]
      = map (\<lambda>_. replicate h c) [0..<w]"
    using inner by (intro map_cong) auto
  then show ?thesis by (simp add: array3d_def wd map_replicate_const)
qed

lemma rectangular_array3d:
  "rectangular s h w \<Longrightarrow> 0 < h \<Longrightarrow> rectangular (array3d s) w h"
  by (simp add: array3d_def rectangular_def rectangular_img_width)

lemma capture_rect:
  assumes "rectangular (window st) h w" "0 < h" "0 < w"
  shows "capture st = Inr (map (map swap_rb) (array3d (window st))) \<and>
         rectangular (map (map swap_rb) (array3d (window st))) w h"
proof -
  have "rectangular (array3d (window st)) w h"
    using assms(1,2) by (rule rectangular_array3d)
  with assms(2,3) show ?thesis
    by (simp add: capture_def cvt_rgb2bgr_def cvt_color_rect)
qed

lemma capture_app_inv:
  assumes "app_inv st"
  shows "capture st = Inr (map (map swap_rb) (array3d (window st))) \<and>
         rectangular (map (map swap_rb) (array3d (window st))) screen_width screen_height"
proof -
  have r: "rectangular (window st) screen_height screen_width"
    using assms by (simp add: app_inv_def)
  show ?thesis by (rule capture_rect [OF r]) (simp_all add: screen_width_def screen_height_def)
qed

lemma capture_init: "capture init_state = Inr (replicate screen_width (replicate screen_height black))"
proof -
  have "array3d (window init_state) = replicate screen_width (replicate screen_height black)"
    by (simp add: init_state_def array3d_uniform screen_height_def)
  moreover have "swap_rb black = black" by (simp add: swap_rb_def black_def)
  ultimately show ?thesis
    using capture_app_inv [OF app_inv_init] by (simp add: map_replicate_const)
qed

lemma loop_body_init_crash:
  "loop_body (process_frame cv) ui evs init_state = Inl (AttributeError ''CHAIN_APPROLOGY_SIMPLE'')"
proof -
  have "process_frame cv (replicate screen_width (replicate screen_height black)) =
        Inl (AttributeError ''CHAIN_APPROLOGY_SIMPLE'')"
    by (rule process_frame_misspelled) (simp_all add: screen_width_def screen_height_def)
  then show ?thesis by (simp add: loop_body_def capture_init Let_def)
qed

lemma reachable_predecessor:
  assumes "reachable pf ui st" "st \<noteq> init_state"
  shows "\<exists>st0 evs. reachable pf ui st0 \<and> running st0 \<and> loop_body pf ui evs st0 = Inr st"
  using assms by (blast elim: reachable_stepE)

lemma demo_loop_body_total:
  assumes "rectangular (window st) h w" "0 < h" "0 < w"
  shows "\<exists>st'. loop_body demo_pf demo_ui evs st = Inr st'"
  using capture_rect [OF assms]
  by (auto simp: loop_body_def demo_pf_def demo_ui_def detect_and_translate_def Let_def)

section \<open>Claims on the loop\<close>

text \<open>
  C2: \<^verbatim>\<open>main\<close> as written crashes in its first iteration with the
  \<^verbatim>\<open>AttributeError\<close> of \<^verbatim>\<open>process_frame\<close>, whatever the events (a \<^verbatim>\<open>QUIT\<close>
  in the first batch does not help: the body runs before the test) and whatever the
  libraries; \<^verbatim>\<open>pygame.quit()\<close> is never reached.
\<close>

theorem main_crashes_first_iteration:
  "main cv ui (evs # rest) = Crashed (AttributeError ''CHAIN_APPROLOGY_SIMPLE'')"
  using loop_body_init_crash [of cv ui evs] by (simp add: main_def) (simp add: init_state_def)

text \<open>
  C20: in every reachable state of the loop the window is 1080 rows of 1920 pixels and the
  display shows exactly the window (\<^verbatim>\<open>flip\<close> follows every drawing).
\<close>

theorem reachable_app_inv: "reachable pf ui st \<Longrightarrow> app_inv st"
proof (induction rule: reachable.induct)
  case start
  show ?case by (rule app_inv_init)
next
  case (step st evs st')
  then show ?case by (blast intro: app_inv_step)
qed

text \<open>
  C21: each iteration replaces the previous rendering entirely: the new window is a black
  window of the same size with only the new text surface blitted at its centred rectangle,
  whatever the window held before.
\<close>

theorem loop_body_redraws_window:
  assumes "rectangular (window st) h w" "loop_body pf ui evs st = Inr st'"
  shows "\<exists>surf. window st' = blit (blend ui) (replicate h (replicate w black))
                               surf (rect_x (text_rect surf)) (rect_y (text_rect surf))
               \<and> shown st' = window st'"
proof -
  have "fill black (window st) = replicate h (replicate w black)"
    using assms(1) by (rule fill_rectangular)
  then show ?thesis using loop_body_Inr [OF assms(2)] by (auto simp: redraw_def Let_def)
qed

text \<open>
  C22: the loop only ends through a \<^verbatim>\<open>QUIT\<close> event: if \<^verbatim>\<open>main\<close>'s loop exits from
  a running state, one of the delivered batches held \<^verbatim>\<open>QUIT\<close>.
\<close>

theorem run_loop_exit_requires_quit:
  "run_loop pf ui inputs st = Exited st' \<Longrightarrow> running st \<Longrightarrow> \<exists>evs\<in>set inputs. QUIT \<in> set evs"
proof (induction inputs arbitrary: st)
  case Nil
  then show ?case by simp
next
  case (Cons evs rest)
  then obtain st1 where st1: "loop_body pf ui evs st = Inr st1" "run_loop pf ui rest st1 = Exited st'"
    by (auto split: sum.splits)
  show ?case
  proof (cases "QUIT \<in> set evs")
    case True
    then show ?thesis by simp
  next
    case False
    then have "running st1"
      using loop_body_Inr [OF st1(1)] Cons.prems(2) by auto
    then show ?thesis using Cons.IH [OF st1(2)] by simp
  qed
qed

text \<open>
  C23: when no iteration raises, the loop ends right after the first batch that holds
  \<^verbatim>\<open>QUIT\<close>, and that batch's iteration still runs to the end (one more clock tick).
\<close>

theorem run_loop_first_quit:
  assumes ok: "\<forall>evs st. running st \<and> rectangular (window st) h w \<longrightarrow>
                 (\<exists>st'. loop_body pf ui evs st = Inr st')"
  shows "k < length inputs \<Longrightarrow> QUIT \<in> set (inputs ! k) \<Longrightarrow> (\<forall>j<k. QUIT \<notin> set (inputs ! j)) \<Longrightarrow>
         running st \<Longrightarrow> rectangular (window st) h w \<Longrightarrow>
         \<exists>st'. run_loop pf ui inputs st = Exited st' \<and> ticks st' = ticks st + Suc k"
proof (induction k arbitrary: inputs st)
  case 0
  then obtain evs rest where inp: "inputs = evs # rest" by (cases inputs) auto
  obtain st1 where st1: "loop_body pf ui evs st = Inr st1" using ok "0.prems"(4,5) by blast
  have "\<not> running st1" "ticks st1 = Suc (ticks st)"
    using loop_body_fields [OF st1] "0.prems"(2) inp by auto
  then show ?case using st1 inp "0.prems"(4) by (cases rest) auto
next
  case (Suc k)
  then obtain evs rest where inp: "inputs = evs # rest" by (cases inputs) auto
  obtain st1 where st1: "loop_body pf ui evs st = Inr st1" using ok Suc.prems(4,5) by blast
  have q: "QUIT \<notin> set evs" using Suc.prems(3) inp by force
  have r1: "running st1" "ticks st1 = Suc (ticks st)" "rectangular (window st1) h w"
    using loop_body_fields [OF st1] q Suc.prems(4,5) by auto
  have "\<exists>st'. run_loop pf ui rest st1 = Exited st' \<and> ticks st' = ticks st1 + Suc k"
    using Suc.prems inp r1 by (intro Suc.IH) auto
  then show ?case using st1 inp Suc.prems(4) r1(2) by auto
qed

text \<open>
  C24: a failed translation ends the program: when the client's answer has no
  \<^verbatim>\<open>translatedText\<close>, the running loop crashes with \<^verbatim>\<open>KeyError\<close> instead of
  skipping the frame.
\<close>

theorem translation_failure_crashes:
  assumes "running st" "capture st = Inr scr" "pf scr = Inr t" "translate ui t ''en-US'' = Inr d"
    and "d ''translatedText'' = None"
  shows "run_loop pf ui (evs # rest) st = Crashed (KeyError ''translatedText'')"
  using assms by (simp add: loop_body_def detect_and_translate_def Let_def)

text \<open>
  C25: the capture of line 64 never raises in a state of the loop, and the frame it hands to
  \<^verbatim>\<open>process_frame\<close> is the transpose of the window:
  \<^verbatim>\<open>surfarray.array3d\<close> gives 1920 rows of 1080 pixels, not the 1080 by 1920 frame
  of the spec.
\<close>

theorem capture_transposed:
  "app_inv st \<Longrightarrow> \<exists>scr. capture st = Inr scr \<and> rectangular scr screen_width screen_height"
  using capture_app_inv by blast

text \<open>
  C26: a rendered text no larger than the window is drawn inside it and centred (to half a
  pixel); a larger one is clipped on both sides.
\<close>

theorem text_rect_inside:
  assumes "img_width surf \<le> screen_width" "length surf \<le> screen_height"
  shows "0 \<le> rect_x (text_rect surf) \<and> rect_x (text_rect surf) + rect_w (text_rect surf) \<le> int screen_width \<and>
         0 \<le> rect_y (text_rect surf) \<and> rect_y (text_rect surf) + rect_h (text_rect surf) \<le> int screen_height \<and>
         \<bar>2 * rect_x (text_rect surf) + rect_w (text_rect surf) - int screen_width\<bar> \<le> 1"
  using assms by (simp add: text_rect_def screen_width_def screen_height_def Let_def) linarith

text \<open>
  C30: a rendered text that fits in the window is drawn completely: each of its pixels is
  blended over black at its place in the centred rectangle (lines 73 to 77).
\<close>

theorem redraw_text_fits:
  assumes win: "rectangular win screen_height screen_width"
    and surf: "rectangular surf sh sw" "sw \<le> screen_width" "sh \<le> screen_height"
    and ab: "a < sh" "b < sw"
  shows "redraw ui win surf ! nat (rect_y (text_rect surf) + int a) ! nat (rect_x (text_rect surf) + int b) =
         blend ui (surf ! a ! b) black"
proof -
  let ?r = "text_rect surf"
  have wd: "img_width surf = sw" using surf(1) ab(1) by (intro rectangular_img_width) auto
  have len: "length surf = sh" using surf(1) by (simp add: rectangular_def)
  have x: "0 \<le> rect_x ?r" "rect_x ?r + int b < int screen_width" and
       y: "0 \<le> rect_y ?r" "rect_y ?r + int a < int screen_height"
    using surf(2,3) ab wd len by (simp_all add: text_rect_def screen_width_def screen_height_def Let_def)
  have fill: "fill black win = replicate screen_height (replicate screen_width black)"
    using win by (rule fill_rectangular)
  have wdf: "img_width (replicate screen_height (replicate screen_width black)) = screen_width"
    by (simp add: screen_height_def)
  show ?thesis
    using x y ab wd len
    by (simp add: redraw_def Let_def fill blit_def wdf nat_less_iff)
qed
text \<open>
  C34: the program reads back its own output: after an iteration, the frame the next
  capture hands to \<^verbatim>\<open>process_frame\<close> is exactly this iteration's rendering of the
  translation of this iteration's text, white on black at the centre (transposed by
  \<^verbatim>\<open>array3d\<close>), not an image of any other window.
\<close>

theorem next_frame_is_own_rendering:
  assumes inv: "app_inv st" and step: "loop_body pf ui evs st = Inr st'"
  shows "\<exists>scr t tt surf. capture st = Inr scr \<and> pf scr = Inr t \<and> detect_and_translate ui t = Inr tt \<and>
           render ui tt True white = Inr surf \<and>
           capture st' = Inr (map (map swap_rb) (array3d
             (blit (blend ui) (replicate screen_height (replicate screen_width black))
                   surf (rect_x (text_rect surf)) (rect_y (text_rect surf)))))"
proof -
  obtain scr t tt surf where parts: "capture st = Inr scr" "pf scr = Inr t" "detect_and_translate ui t = Inr tt"
      "render ui tt True white = Inr surf"
      and st': "st' = st\<lparr>running := running st \<and> QUIT \<notin> set evs,
                    window := redraw ui (window st) surf, shown := redraw ui (window st) surf,
                    ticks := Suc (ticks st)\<rparr>"
    using loop_body_Inr [OF step] by blast
  have rect: "rectangular (window st) screen_height screen_width" using inv by (simp add: app_inv_def)
  have "redraw ui (window st) surf =
        blit (blend ui) (replicate screen_height (replicate screen_width black))
             surf (rect_x (text_rect surf)) (rect_y (text_rect surf))"
    by (simp add: redraw_def Let_def fill_rectangular [OF rect])
  moreover have "app_inv st'" by (rule app_inv_step [OF inv step])
  ultimately have "capture st' = Inr (map (map swap_rb) (array3d
             (blit (blend ui) (replicate screen_height (replicate screen_width black))
                   surf (rect_x (text_rect surf)) (rect_y (text_rect surf)))))"
    using capture_app_inv [of st'] st' by simp
  with parts show ?thesis by blast
qed

section \<open>Witnesses\<close>

theorem reachable_app_inv_witness: "app_inv init_state"
  by (rule reachable_app_inv [OF reachable.start])

lemma small_state_step:
  "loop_body demo_pf demo_ui evs small_state =
   Inr (small_state\<lparr>running := QUIT \<notin> set evs, window := [[black]], shown := [[black]],
                    ticks := 1\<rparr>)"
  by (simp add: loop_body_def demo_pf_def demo_ui_def small_state_def detect_and_translate_def
      handle_events_iff py_simps Let_def)

theorem loop_body_redraws_window_witness:
  "\<exists>surf. window (small_state\<lparr>running := True, window := [[black]], shown := [[black]], ticks := 1\<rparr>) =
          blit (blend demo_ui) (replicate 1 (replicate 1 black)) surf
               (rect_x (text_rect surf)) (rect_y (text_rect surf))"
proof -
  have r: "rectangular (window small_state) 1 1" by (simp add: small_state_def rectangular_def)
  show ?thesis
    using loop_body_redraws_window [OF r small_state_step [of "[]"]] by auto
qed

theorem run_loop_exit_requires_quit_witness:
  "run_loop demo_pf demo_ui [[OtherEvent 1], [QUIT]] small_state =
     Exited (small_state\<lparr>running := False, window := [[black]], shown := [[black]], ticks := 2\<rparr>) \<and>
   (\<exists>evs\<in>set [[OtherEvent 1], [QUIT]]. QUIT \<in> set evs)"
proof -
  have run: "run_loop demo_pf demo_ui [[OtherEvent 1], [QUIT]] small_state =
     Exited (small_state\<lparr>running := False, window := [[black]], shown := [[black]], ticks := 2\<rparr>)"
    by (simp add: small_state_step) (simp add: loop_body_def demo_pf_def demo_ui_def small_state_def
        detect_and_translate_def handle_events_iff py_simps Let_def)
  have "running small_state" by (simp add: small_state_def)
  with run show ?thesis using run_loop_exit_requires_quit [OF run] by blast
qed

theorem run_loop_first_quit_witness:
  "\<exists>st'. run_loop demo_pf demo_ui [[OtherEvent 1], [QUIT], []] small_state = Exited st' \<and> ticks st' = 2"
proof -
  have ok: "\<forall>evs st. running st \<and> rectangular (window st) 1 1 \<longrightarrow>
              (\<exists>st'. loop_body demo_pf demo_ui evs st = Inr st')"
    using demo_loop_body_total by auto
  have "\<exists>st'. run_loop demo_pf demo_ui [[OtherEvent 1], [QUIT], []] small_state = Exited st' \<and>
          ticks st' = ticks small_state + Suc 1"
    by (rule run_loop_first_quit [OF ok])
       (auto simp: small_state_def nth_Cons' less_Suc_eq rectangular_def)
  then show ?thesis by (simp add: small_state_def numeral_2_eq_2)
qed

theorem translation_failure_crashes_witness:
  "run_loop demo_pf keyless_ui [[]] small_state = Crashed (KeyError ''translatedText'')"
  by (rule translation_failure_crashes [where scr = "[[black]]" and t = "[]" and d = Map.empty])
     (simp_all add: small_state_def demo_pf_def keyless_ui_def demo_ui_def py_simps)

theorem capture_transposed_witness:
  "\<exists>scr. capture init_state = Inr scr \<and> rectangular scr screen_width screen_height"
  by (rule capture_transposed [OF app_inv_init])

theorem text_rect_inside_witness:
  "rect_x (text_rect [[(0, 0, 0, 0), (0, 0, 0, 0)]]) = 959 \<and>
   rect_y (text_rect [[(0, 0, 0, 0), (0, 0, 0, 0)]]) = 540"
proof -
  have "0 \<le> rect_x (text_rect [[(0, 0, 0, 0), (0, 0, 0, 0)]])"
    using text_rect_inside [of "[[(0, 0, 0, 0), (0, 0, 0, 0)]]"]
    by (simp add: img_width_def screen_width_def screen_height_def)
  then show ?thesis by (simp add: text_rect_def img_width_def screen_width_def screen_height_def)
qed

theorem redraw_text_fits_witness:
  "redraw demo_ui (replicate screen_height (replicate screen_width black)) [[(255, 255, 255, 255)]] ! 540 ! 960 =
   (255, 255, 255)"
proof -
  have "redraw demo_ui (replicate screen_height (replicate screen_width black)) [[(255, 255, 255, 255)]]
          ! nat (rect_y (text_rect [[(255, 255, 255, 255)]]) + int 0)
          ! nat (rect_x (text_rect [[(255, 255, 255, 255)]]) + int 0) =
        blend demo_ui ([[(255, 255, 255, 255)]] ! 0 ! 0) black"
    by (rule redraw_text_fits [where sh = 1 and sw = 1])
       (simp_all add: rectangular_def screen_width_def screen_height_def)
  then show ?thesis
    by (simp add: text_rect_def img_width_def screen_width_def screen_height_def demo_ui_def black_def)
qed

theorem next_frame_is_own_rendering_witness:
  "\<exists>st'. loop_body demo_pf demo_ui [] init_state = Inr st' \<and>
     (\<exists>scr t tt surf. capture init_state = Inr scr \<and> demo_pf scr = Inr t \<and>
        detect_and_translate demo_ui t = Inr tt \<and> render demo_ui tt True white = Inr surf \<and>
        capture st' = Inr (map (map swap_rb) (array3d
          (blit (blend demo_ui) (replicate screen_height (replicate screen_width black))
                surf (rect_x (text_rect surf)) (rect_y (text_rect surf))))))"
proof -
  have "rectangular (window init_state) screen_height screen_width"
    using app_inv_init by (simp add: app_inv_def)
  then obtain st' where step: "loop_body demo_pf demo_ui [] init_state = Inr st'"
    using demo_loop_body_total by (fastforce simp: screen_width_def screen_height_def)
  show ?thesis
    using step next_frame_is_own_rendering [OF app_inv_init step] by blast
qed

end
