(* ===== verification/EventLoop.thy ===== *)
theory EventLoop
  imports Prelude Image Frame MainLoop "HOL-Library.Stream"
begin

text \<open>
  The \<^verbatim>\<open>while running\<close> loop of \<^verbatim>\<open>main\<close> (lines 57 to 80 of \<^verbatim>\<open>src/main.py\<close>)
  as the program runs it: the batches that \<^verbatim>\<open>pygame.event.get()\<close> returns are an
  infinite stream, one batch per iteration, and the loop need not end, so it is a
  \<^theory_text>\<open>partial_function (option)\<close> whose value \<open>None\<close> is "runs forever". It
  is related to \<open>run_loop\<close> of theory \<open>MainLoop\<close>, the same loop over a finite list of
  batches. The module-level code (the client created at import, line 9, and the
  \<^verbatim>\<open>if __name__ == "__main__"\<close> guard, lines 84 and 85) is \<open>run_script\<close>.
\<close>

text \<open>
  Lines 58 to 80: the test of \<^verbatim>\<open>running\<close> comes before every iteration; an exception in
  the body leaves the loop (and \<^verbatim>\<open>main\<close>); when the test fails the loop exits.
\<close>

partial_function (option) run_while ::
  "(color_image \<Rightarrow> pystr result) \<Rightarrow> ui_backend \<Rightarrow> event list stream \<Rightarrow> app_state \<Rightarrow> outcome option"
where
  "run_while pf ui evs st =
     (if running st
      then (case loop_body pf ui (shd evs) st of
              Inl e \<Rightarrow> Some (Crashed e)
            | Inr st' \<Rightarrow> run_while pf ui (stl evs) st')
      else Some (Exited st))"

text \<open>The outcomes in which a run has ended, by exiting the loop or by an exception.\<close>

fun final :: "outcome \<Rightarrow> bool" where
  "final (Waiting _) = False"
| "final _ = True"

text \<open>
  Lines 49 to 82: \<^verbatim>\<open>main\<close> with the events the environment will deliver; the
  window opens black with \<^verbatim>\<open>running = True\<close> (\<open>init_state\<close>).
\<close>

definition main_events :: "cv_backend \<Rightarrow> ui_backend \<Rightarrow> event list stream \<Rightarrow> outcome option" where
  "main_events cv ui evs = run_while (process_frame cv) ui evs init_state"

text \<open>
  Running the file: the module body creates the translation client at import (line 9),
  which may raise (no credentials, no network library); \<^verbatim>\<open>main()\<close> runs only when the
  file is the main module (lines 84 and 85). The translation collaborator of the loop is
  built from the client object.
\<close>

datatype script_outcome = ModuleRaised py_error | Imported | Ran outcome

definition run_script ::
  "string \<Rightarrow> 'c result \<Rightarrow> ('c \<Rightarrow> ui_backend) \<Rightarrow> cv_backend \<Rightarrow> event list stream \<Rightarrow>
   script_outcome option" where
  "run_script name client ui_of cv evs =
     (case client of
        Inl e \<Rightarrow> Some (ModuleRaised e)
      | Inr c \<Rightarrow> if name = ''__main__'' then map_option Ran (main_events cv (ui_of c) evs)
                else Some Imported)"

section \<open>The loop over a stream and over its prefixes\<close>

lemma run_loop_stake_final:
  "run_loop pf ui (stake n evs) st = r \<Longrightarrow> final r \<Longrightarrow> run_while pf ui evs st = Some r"
proof (induction n arbitrary: evs st)
  case 0
  then show ?case by (auto simp: final.simps run_while.simps split: if_splits)
next
  case (Suc n)
  then show ?case
    by (auto simp: run_while.simps [of pf ui evs st] final.simps split: if_splits sum.splits)
qed

lemma run_while_some_run_loop:
  assumes "run_while pf ui evs st = Some r"
  shows "\<exists>n. run_loop pf ui (stake n evs) st = r \<and> final r"
proof (rule run_while.raw_induct
    [where P = "\<lambda>pf ui evs st r. \<exists>n. run_loop pf ui (stake n evs) st = r \<and> final r", OF _ assms])
  fix f pf ui evs st r
  assume IH: "\<And>pf ui evs st r. f pf ui evs st = Some r \<Longrightarrow>
                \<exists>n. run_loop pf ui (stake n evs) st = r \<and> final r"
    and eq: "(if running st
              then (case loop_body pf ui (shd evs) st of
                      Inl e \<Rightarrow> Some (Crashed e)
                    | Inr st' \<Rightarrow> f pf ui (stl evs) st')
              else Some (Exited st)) = Some r"
  show "\<exists>n. run_loop pf ui (stake n evs) st = r \<and> final r"
  proof (cases "running st")
    case False
    with eq have "run_loop pf ui (stake 0 evs) st = r \<and> final r" by auto
    then show ?thesis by blast
  next
    case True
    show ?thesis
    proof (cases "loop_body pf ui (shd evs) st")
      case (Inl e)
      with True eq have "run_loop pf ui (stake 1 evs) st = r \<and> final r" by (auto simp: final.simps)
      then show ?thesis by blast
    next
      case (Inr st')
      with True eq have "f pf ui (stl evs) st' = Some r" by simp
      then obtain n where "run_loop pf ui (stake n (stl evs)) st' = r \<and> final r"
        using IH by blast
      then have "run_loop pf ui (stake (Suc n) evs) st = r \<and> final r"
        using True Inr by simp
      then show ?thesis by blast
    qed
  qed
qed

section \<open>Properties of the unbounded loop\<close>

text \<open>
  The loop over the event stream ends with outcome \<open>r\<close> exactly when the loop over some
  finite prefix of the stream ends with \<open>r\<close>: \<open>run_loop\<close> describes the runs that end.
\<close>

lemma run_while_iff_run_loop:
  "run_while pf ui evs st = Some r \<longleftrightarrow> (\<exists>n. run_loop pf ui (stake n evs) st = r \<and> final r)"
  using run_while_some_run_loop run_loop_stake_final by blast

text \<open>
  C29: without a \<^verbatim>\<open>QUIT\<close> event and without an exception the loop never ends: the
  only way out of \<^verbatim>\<open>while running\<close> is \<^verbatim>\<open>QUIT\<close> or a crash.
\<close>

theorem run_while_no_quit_diverges:
  assumes ok: "\<forall>evs st. running st \<and> rectangular (window st) h w \<longrightarrow>
                 (\<exists>st'. loop_body pf ui evs st = Inr st')"
    and noquit: "\<forall>k. QUIT \<notin> set (snth evs k)"
    and run: "running st" "rectangular (window st) h w"
  shows "run_while pf ui evs st = None"
proof (rule ccontr)
  assume "run_while pf ui evs st \<noteq> None"
  then obtain r where ret: "run_while pf ui evs st = Some r" by blast
  let ?P = "\<lambda>pf' ui' evs st r. pf' = pf \<longrightarrow> ui' = ui \<longrightarrow> running st \<longrightarrow>
              rectangular (window st) h w \<longrightarrow> (\<exists>k. QUIT \<in> set (snth evs k))"
  have "?P pf ui evs st r"
  proof (rule run_while.raw_induct [where P = ?P, OF _ ret])
    fix f pf' ui' evs st r
    assume IH: "\<And>pf' ui' evs st r. f pf' ui' evs st = Some r \<Longrightarrow> ?P pf' ui' evs st r"
      and eq: "(if running st
                then (case loop_body pf' ui' (shd evs) st of
                        Inl e \<Rightarrow> Some (Crashed e)
                      | Inr st' \<Rightarrow> f pf' ui' (stl evs) st')
                else Some (Exited st)) = Some r"
    show "?P pf' ui' evs st r"
    proof (intro impI)
      assume p: "pf' = pf" "ui' = ui" "running st" "rectangular (window st) h w"
      obtain st1 where st1: "loop_body pf ui (shd evs) st = Inr st1" using ok p(3,4) by blast
      show "\<exists>k. QUIT \<in> set (snth evs k)"
      proof (cases "QUIT \<in> set (shd evs)")
        case True
        then show ?thesis by (metis snth.simps(1))
      next
        case False
        then have r1: "running st1" "rectangular (window st1) h w"
          using loop_body_fields [OF st1] p(3,4) by auto
        have "f pf ui (stl evs) st1 = Some r" using eq st1 p by simp
        then obtain k where "QUIT \<in> set (snth (stl evs) k)" using IH r1 by blast
        then show ?thesis by (metis snth.simps(2))
      qed
    qed
  qed
  then show False using run noquit by blast
qed

section \<open>Witnesses\<close>

lemma demo_ok_1_1:
  "\<forall>evs st. running st \<and> rectangular (window st) 1 1 \<longrightarrow>
     (\<exists>st'. loop_body demo_pf demo_ui evs st = Inr st')"
  using demo_loop_body_total by auto

lemma small_state_rect: "running small_state" "rectangular (window small_state) 1 1"
  by (simp_all add: small_state_def rectangular_def)

theorem run_while_no_quit_diverges_witness:
  "run_while demo_pf demo_ui (sconst []) small_state = None"
  by (rule run_while_no_quit_diverges [OF demo_ok_1_1 _ small_state_rect]) simp

end
